theory Spec2Isabelle
  imports Complex_Main "HOL-Library.Monad_Syntax"
begin

section \<open>Scalars\<close>

text \<open>
  The element type \<open>scalar_t\<close> of a kernel instantiation, and \<open>double\<close>. The special values
  of IEEE arithmetic are constructors of their own; a finite value is given by the real number
  it denotes (the sign of a zero is left out). Integer and boolean element types only
  ever hold \<open>Fin\<close> values.
\<close>

datatype scalar_t = NaN | NInf | Fin real | PInf

type_synonym double = scalar_t

text \<open>The zero of the element type, which \<open>zero_()\<close> stores.\<close>

instantiation scalar_t :: zero
begin

definition zero_scalar_t :: scalar_t where
  "zero_scalar_t = Fin 0"

instance ..

end

text \<open>\<open>isnan_t\<close> is the source's \<open>isnan_\<close> (\<open>std::isnan\<close>).\<close>

fun isnan_t :: "scalar_t \<Rightarrow> bool" where
  "isnan_t NaN = True"
| "isnan_t _ = False"

text \<open>
  \<open>std::less_equal<scalar_t>\<close> and \<open>std::greater_equal<scalar_t>\<close>: the comparisons
  \<open><=\<close> and \<open>>=\<close>, false as soon as one side is NaN.
\<close>

fun less_equal :: "scalar_t \<Rightarrow> scalar_t \<Rightarrow> bool" where
  "less_equal NaN _ = False"
| "less_equal _ NaN = False"
| "less_equal NInf _ = True"
| "less_equal _ PInf = True"
| "less_equal (Fin a) (Fin b) = (a \<le> b)"
| "less_equal _ _ = False"

definition greater_equal :: "scalar_t \<Rightarrow> scalar_t \<Rightarrow> bool" where
  "greater_equal a b = less_equal b a"

section \<open>Dtypes, rounding and the conversion of values\<close>

text \<open>
  Modelled from the spec: the enumeration of scalar kinds (section 3, "dtype (one of a fixed
  enumeration of numeric/boolean/complex scalar kinds)"); its declaration, \<open>c10::ScalarType\<close>,
  and the predicates on it are not in this file. The constructors carry the names the source
  uses (\<open>kByte\<close> is the 8-bit unsigned type, \<open>kLong\<close> the widest signed integer type).
\<close>

datatype ScalarType =
    kByte | kChar | kShort | kInt | kLong
  | kHalf | kFloat | kDouble
  | kComplexHalf | kComplexFloat | kComplexDouble
  | kBool | kBFloat16

definition isIntegralType :: "ScalarType \<Rightarrow> bool \<Rightarrow> bool" where
  "isIntegralType t includeBool =
     (t = kByte \<or> t = kChar \<or> t = kInt \<or> t = kLong \<or> t = kShort \<or> (includeBool \<and> t = kBool))"

definition isFloatingType :: "ScalarType \<Rightarrow> bool" where
  "isFloatingType t = (t = kDouble \<or> t = kFloat \<or> t = kHalf \<or> t = kBFloat16)"

definition isComplexType :: "ScalarType \<Rightarrow> bool" where
  "isComplexType t = (t = kComplexHalf \<or> t = kComplexFloat \<or> t = kComplexDouble)"

fun toRealValueType :: "ScalarType \<Rightarrow> ScalarType" where
  "toRealValueType kComplexHalf = kHalf"
| "toRealValueType kComplexFloat = kFloat"
| "toRealValueType kComplexDouble = kDouble"
| "toRealValueType t = t"

text \<open>
  Floating-point arithmetic rounds. The rounding of each floating dtype is a parameter of
  the model: \<open>rnd t r\<close> is the value of dtype \<open>t\<close> that the real number \<open>r\<close> rounds to, an
  infinity when \<open>r\<close> is beyond the range of \<open>t\<close>. \<open>exact\<close> is the rounding that changes
  nothing; it agrees with every rounding on the numbers the dtype represents.
\<close>

type_synonym rounding = "ScalarType \<Rightarrow> real \<Rightarrow> scalar_t"

definition exact :: rounding where
  "exact t r = Fin r"

text \<open>
  What the theorems below ask of a rounding: zero rounds to zero, and a positive number rounds
  to the positive infinity or to a finite number that is not negative (it may underflow to
  zero).
\<close>

definition sign_preserving :: "rounding \<Rightarrow> bool" where
  "sign_preserving rnd =
     (\<forall>t. rnd t 0 = Fin 0 \<and> (\<forall>r>0. rnd t r = PInf \<or> (\<exists>a\<ge>0. rnd t r = Fin a)))"

text \<open>
  The two's complement range of the integer dtypes: \<open>wrap_int t v\<close> is the value of dtype \<open>t\<close>
  congruent to \<open>v\<close>.
\<close>

definition wrap_signed :: "nat \<Rightarrow> int \<Rightarrow> int" where
  "wrap_signed w v = (v + 2 ^ (w - 1)) mod 2 ^ w - 2 ^ (w - 1)"

fun wrap_int :: "ScalarType \<Rightarrow> int \<Rightarrow> int" where
  "wrap_int kByte v = v mod 2 ^ 8"
| "wrap_int kChar v = wrap_signed 8 v"
| "wrap_int kShort v = wrap_signed 16 v"
| "wrap_int kInt v = wrap_signed 32 v"
| "wrap_int kLong v = wrap_signed 64 v"
| "wrap_int t v = v"

definition trunc :: "real \<Rightarrow> int" where
  "trunc r = (if 0 \<le> r then \<lfloor>r\<rfloor> else \<lceil>r\<rceil>)"

text \<open>
  Modelled from the spec: the conversion of a value to a dtype (\<open>c10::convert\<close>, a
  \<open>static_cast\<close>; not in this file), which \<open>fill_\<close> and \<open>to\<close> apply. To a floating dtype a
  finite value is rounded; to the boolean dtype every value but zero is true; to an integer
  dtype a finite value is truncated towards zero and wrapped into the range, as a conversion
  between integer types does; NaN and the infinities, for which C++ defines no result, are
  left as they are (nor does C++ define the result for a floating value beyond the range, where
  the model wraps). Values of the complex dtypes are not modelled.
\<close>

definition convert_scalar :: "rounding \<Rightarrow> ScalarType \<Rightarrow> scalar_t \<Rightarrow> scalar_t" where
  "convert_scalar rnd t v =
     (if isFloatingType t then (case v of Fin a \<Rightarrow> rnd t a | _ \<Rightarrow> v)
      else if t = kBool then Fin (if v = Fin 0 then 0 else 1)
      else if isIntegralType t False
      then (case v of Fin a \<Rightarrow> Fin (of_int (wrap_int t (trunc a))) | _ \<Rightarrow> v)
      else v)"

section \<open>Tensors and errors\<close>

text \<open>
  \<open>TORCH_CHECK\<close> raises \<open>c10::Error\<close> and \<open>TORCH_CHECK_INDEX\<close> raises \<open>c10::IndexError\<close>; both
  carry a message. A function that can raise returns \<open>error + 'a\<close>, \<open>Inl\<close> the error.
\<close>

datatype error = Error string | IndexError string

datatype DeviceType = kCPU | kCUDA | kMeta

datatype Layout = Strided | Sparse

text \<open>
  An array view (section 3 of the specification): shape, dtype, device, layout and the
  elements, as the function from a multi-index to the element stored there. The strides are
  left out: no function modelled below depends on them. A view that may be undefined
  (\<open>result.defined()\<close>) is a \<open>Tensor option\<close>.
\<close>

record 'a Tensor =
  sizes :: "nat list"
  scalar_type :: ScalarType
  device :: DeviceType
  layout :: Layout
  elem :: "nat list \<Rightarrow> 'a"

definition ndimension :: "'a Tensor \<Rightarrow> nat" where
  "ndimension t = length (sizes t)"

definition numel :: "'a Tensor \<Rightarrow> nat" where
  "numel t = prod_list (sizes t)"

text \<open>All multi-indices of a shape in row-major order, and the elements in that order.\<close>

definition all_indices :: "nat list \<Rightarrow> nat list list" where
  "all_indices shape = product_lists (map (\<lambda>n. [0..<n]) shape)"

definition elements :: "'a Tensor \<Rightarrow> 'a list" where
  "elements t = map (elem t) (all_indices (sizes t))"

text \<open>\<open>item()\<close>: the only element of a one-element tensor.\<close>

definition item :: "'a Tensor \<Rightarrow> 'a" where
  "item t = elem t (replicate (ndimension t) 0)"

text \<open>
  \<open>fill_\<close> and \<open>zero_\<close> overwrite every element of the tensor they are called on with a
  value converted to the dtype of that tensor. \<open>fill_inplace\<close> and \<open>zero_inplace\<close> are the
  calls whose argument is zero or one (\<open>zero_()\<close>, \<open>fill_(identity)\<close>, \<open>fill_(bool)\<close>): every
  dtype holds these two values, so that the conversion does not show. \<open>fill_scalar\<close> is the
  call with any other scalar and \<open>fill_tensor\<close> the call with a rank-0 tensor,
  \<open>result.fill_(self)\<close>; both convert.
\<close>

definition fill_inplace :: "'a Tensor \<Rightarrow> 'a \<Rightarrow> 'a Tensor" where
  "fill_inplace t v = t\<lparr>elem := (\<lambda>_. v)\<rparr>"

definition zero_inplace :: "'a::zero Tensor \<Rightarrow> 'a Tensor" where
  "zero_inplace t = fill_inplace t 0"

definition fill_scalar :: "rounding \<Rightarrow> scalar_t Tensor \<Rightarrow> scalar_t \<Rightarrow> scalar_t Tensor" where
  "fill_scalar rnd t v = t\<lparr>elem := (\<lambda>_. convert_scalar rnd (scalar_type t) v)\<rparr>"

definition fill_tensor :: "rounding \<Rightarrow> scalar_t Tensor \<Rightarrow> scalar_t Tensor \<Rightarrow> scalar_t Tensor" where
  "fill_tensor rnd t self = fill_scalar rnd t (item self)"

text \<open>\<open>self.to(dtype)\<close>: the elements converted to another dtype.\<close>

definition to_converted :: "rounding \<Rightarrow> scalar_t Tensor \<Rightarrow> ScalarType \<Rightarrow> scalar_t Tensor" where
  "to_converted rnd t dt =
     t\<lparr>scalar_type := dt, elem := (\<lambda>idx. convert_scalar rnd dt (elem t idx))\<rparr>"

text \<open>
  \<open>TensorOptions\<close>: the dtype, device and layout of a tensor; \<open>self.options().dtype(d)\<close> is
  \<open>(options self)\<lparr>dtype := d\<rparr>\<close>. \<open>at_empty\<close> is \<open>at::empty(shape, options)\<close>: a fresh tensor
  whose elements are whatever the memory holds.
\<close>

record TensorOptions =
  dtype :: ScalarType
  device_opt :: DeviceType
  layout_opt :: Layout

definition options :: "'a Tensor \<Rightarrow> TensorOptions" where
  "options t = \<lparr>dtype = scalar_type t, device_opt = device t, layout_opt = layout t\<rparr>"

definition at_empty :: "nat list \<Rightarrow> TensorOptions \<Rightarrow> 'a Tensor" where
  "at_empty shape opts =
     \<lparr>sizes = shape, scalar_type = dtype opts, device = device_opt opts, layout = layout_opt opts,
      elem = (\<lambda>_. undefined)\<rparr>"

subsection \<open>Dimension wrapping and the shape of a reduction\<close>

text \<open>
  Sequencing of calls that can raise: the first error ends the computation.
\<close>

definition and_then :: "'e + 'a \<Rightarrow> ('a \<Rightarrow> 'e + 'b) \<Rightarrow> 'e + 'b" where
  "and_then r f = (case r of Inl e \<Rightarrow> Inl e | Inr x \<Rightarrow> f x)"

text \<open>
  Modelled from the spec: \<open>maybe_wrap_dim\<close> (WrapDimUtils.h is not in this file). Section 3:
  each dimension index is "wrapped into [0, rank) via a canonicalization rule: negative indices
  count from the end"; section 7: an index out of [-rank, rank) is the usage error
  InvalidDimension. A rank-0 tensor is wrapped as if it had rank 1, which is what lets the
  reductions of section 4.2 accept a scalar.
\<close>

definition maybe_wrap_dim :: "int \<Rightarrow> nat \<Rightarrow> error + nat" where
  "maybe_wrap_dim d dim_post_expr =
     (let n = (if dim_post_expr = 0 then 1 else int dim_post_expr)
      in if d < - n \<or> n - 1 < d then Inl (IndexError ''Dimension out of range'')
         else Inr (nat (if d < 0 then d + n else d)))"

text \<open>
  Modelled from the spec: \<open>dim_list_to_bitset\<close> and \<open>make_dim_mask\<close> (WrapDimUtilsMulti.h and
  ReduceOpsUtils.h are not in this file). Section 3: "after wrapping, all indices are unique and
  within range; violating this is a usage error", and the empty sequence means full reduction.
\<close>

fun dim_list_to_bitset_from :: "bool list \<Rightarrow> int list \<Rightarrow> nat \<Rightarrow> error + bool list" where
  "dim_list_to_bitset_from seen [] ndims = Inr seen"
| "dim_list_to_bitset_from seen (d # ds) ndims =
     (case maybe_wrap_dim d ndims of
        Inl e \<Rightarrow> Inl e
      | Inr k \<Rightarrow>
          if k < length seen \<and> seen ! k
          then Inl (Error ''dim appears multiple times in the list of dims'')
          else dim_list_to_bitset_from (seen[k := True]) ds ndims)"

definition dim_list_to_bitset :: "int list \<Rightarrow> nat \<Rightarrow> error + bool list" where
  "dim_list_to_bitset dims ndims = dim_list_to_bitset_from (replicate ndims False) dims ndims"

definition make_dim_mask :: "int list \<Rightarrow> nat \<Rightarrow> error + bool list" where
  "make_dim_mask dims ndim =
     (if dims = [] then Inr (replicate ndim True) else dim_list_to_bitset dims ndim)"

text \<open>
  Modelled from the spec: \<open>shape_from_dim_mask\<close>, section 4.1: "for each input dimension, if it
  is in the reduction set, output size is 1 if keepdim else the dimension is omitted; otherwise
  output size matches input".
\<close>

definition shape_from_dim_mask :: "'a Tensor \<Rightarrow> bool list \<Rightarrow> bool \<Rightarrow> nat list" where
  "shape_from_dim_mask self dim_mask keepdim =
     concat (map (\<lambda>(s, m). if m then (if keepdim then [1] else []) else [s]) (zip (sizes self) dim_mask))"

definition get_reduction_shape :: "'a Tensor \<Rightarrow> int list \<Rightarrow> bool \<Rightarrow> error + nat list" where
  "get_reduction_shape self dims keepdim =
     (case make_dim_mask dims (ndimension self) of
        Inl e \<Rightarrow> Inl e
      | Inr dim_mask \<Rightarrow> Inr (shape_from_dim_mask self dim_mask keepdim))"

text \<open>
  Modelled from the spec: \<open>resize_reduction\<close> (ReduceOpsUtils.h). It wraps the dimensions,
  computes the shape of section 4.1 and declares the output of the operator:
  \<open>meta.set_output(shape, self.options().dtype(out_dtype))\<close>. The declared output is the pair
  of the shape and the options.
\<close>

type_synonym output_decl = "nat list \<times> TensorOptions"

definition resize_reduction :: "'a Tensor \<Rightarrow> int list \<Rightarrow> bool \<Rightarrow> ScalarType \<Rightarrow> error + output_decl" where
  "resize_reduction self dims keepdim out_dtype =
     (case get_reduction_shape self dims keepdim of
        Inl e \<Rightarrow> Inl e
      | Inr shape \<Rightarrow> Inr (shape, (options self)\<lparr>dtype := out_dtype\<rparr>))"

text \<open>
  Modelled from the spec: what becomes of a declared output, section 3, "Output Ownership".
  A caller-supplied output is validated against the declared shape, dtype and device
  (ShapeMismatch, section 7) and written in place; otherwise a fresh view is handed back.
\<close>

definition set_output :: "'b Tensor option \<Rightarrow> output_decl \<Rightarrow> error + 'b Tensor" where
  "set_output maybe_output decl =
     (case maybe_output of
        None \<Rightarrow> Inr (at_empty (fst decl) (snd decl))
      | Some out \<Rightarrow>
          if sizes out = fst decl \<and> scalar_type out = dtype (snd decl)
             \<and> device out = device_opt (snd decl)
          then Inr out
          else Inl (Error ''ShapeMismatch''))"

text \<open>
  Modelled from the spec: the iteration plan of section 3, "the resolved output shape, the
  common working dtype, ... and a total element count", built by \<open>meta::make_reduction\<close> and
  \<open>meta::make_reduction_from_out_ty\<close> (ReduceOpsUtils.h). A reduction iterates over the
  elements of its input, so the element count of the plan is the input's.
\<close>

record TensorIterator =
  iter_shape :: "nat list"
  iter_numel :: nat
  iter_common_dtype :: ScalarType
  iter_device_type :: DeviceType

definition make_reduction_meta ::
  "'a Tensor \<Rightarrow> 'b Tensor \<Rightarrow> int list \<Rightarrow> bool \<Rightarrow> ScalarType \<Rightarrow> error + TensorIterator" where
  "make_reduction_meta self result opt_dims keepdim in_dtype =
     (case make_dim_mask opt_dims (ndimension self) of
        Inl e \<Rightarrow> Inl e
      | Inr dim_mask \<Rightarrow>
          Inr \<lparr>iter_shape = sizes self, iter_numel = numel self,
               iter_common_dtype = in_dtype, iter_device_type = device self\<rparr>)"

definition make_reduction_from_out_ty ::
  "'a Tensor \<Rightarrow> 'b Tensor \<Rightarrow> int list \<Rightarrow> bool \<Rightarrow> ScalarType \<Rightarrow> error + TensorIterator" where
  "make_reduction_from_out_ty self result opt_dims keepdim out_dtype =
     (let gpu_lowp_to_f32 =
            (device self = kCUDA \<and> (scalar_type self = kHalf \<or> scalar_type self = kBFloat16)
             \<and> out_dtype = kFloat);
          in_dtype = (if gpu_lowp_to_f32 then scalar_type self else out_dtype)
      in make_reduction_meta self result opt_dims keepdim in_dtype)"

subsection \<open>Concrete tensors\<close>

text \<open>
  A strided CPU tensor with the given shape, dtype and elements, and the one-dimensional
  tensor holding the elements of a list; used to run the model on concrete inputs.
\<close>

definition cpu_tensor :: "nat list \<Rightarrow> ScalarType \<Rightarrow> (nat list \<Rightarrow> 'a) \<Rightarrow> 'a Tensor" where
  "cpu_tensor shape dt f =
     \<lparr>sizes = shape, scalar_type = dt, device = kCPU, layout = Strided, elem = f\<rparr>"

definition vector :: "ScalarType \<Rightarrow> 'a list \<Rightarrow> 'a Tensor" where
  "vector dt xs = cpu_tensor [length xs] dt (\<lambda>idx. xs ! hd idx)"

section \<open>Shape and dtype inference of the operators\<close>

subsection \<open>Result dtypes\<close>

definition get_dtype_from_self :: "'a Tensor \<Rightarrow> ScalarType option \<Rightarrow> bool \<Rightarrow> ScalarType" where
  "get_dtype_from_self self dtype_opt promote_integers =
     (case dtype_opt of
        Some d \<Rightarrow> d
      | None \<Rightarrow>
          let src_type = scalar_type self
          in if promote_integers \<and> isIntegralType src_type True then kLong else src_type)"

definition infer_dtype_from_optional ::
  "'a Tensor \<Rightarrow> int list \<Rightarrow> bool \<Rightarrow> ScalarType option \<Rightarrow> 'b Tensor option \<Rightarrow> ScalarType" where
  "infer_dtype_from_optional self dims keepdim opt_dtype result =
     (case result of
        Some r \<Rightarrow> (case opt_dtype of Some d \<Rightarrow> d | None \<Rightarrow> scalar_type r)
      | None \<Rightarrow> get_dtype_from_self self opt_dtype True)"

definition optional_to_arrayref :: "int option \<Rightarrow> int list" where
  "optional_to_arrayref opt = (case opt of Some d \<Rightarrow> [d] | None \<Rightarrow> [])"

definition get_result_or_bytebool_dtype :: "'a Tensor \<Rightarrow> 'b Tensor option \<Rightarrow> ScalarType" where
  "get_result_or_bytebool_dtype self result =
     (case result of
        Some r \<Rightarrow> scalar_type r
      | None \<Rightarrow> if scalar_type self = kByte then kByte else kBool)"

definition check_result_is_bytebool :: "string \<Rightarrow> 'a Tensor \<Rightarrow> 'b Tensor option \<Rightarrow> error + unit" where
  "check_result_is_bytebool name self result =
     (case result of
        Some r \<Rightarrow>
          if scalar_type r = kBool \<or> scalar_type r = kByte then Inr ()
          else Inl (Error (name @ '' only supports bool tensor for result''))
      | None \<Rightarrow> Inr ())"

subsection \<open>all and any\<close>

definition allany_meta ::
  "string \<Rightarrow> 'a Tensor \<Rightarrow> int list \<Rightarrow> bool \<Rightarrow> 'b Tensor option \<Rightarrow> error + output_decl" where
  "allany_meta name self dims keepdim result =
     and_then (check_result_is_bytebool name self result) (\<lambda>_.
       let out_dtype = get_result_or_bytebool_dtype self result
       in resize_reduction self dims keepdim out_dtype)"

text \<open>
  The four meta functions: \<open>all.dim\<close>, \<open>all\<close>, \<open>any.dim\<close>, \<open>any\<close>. The two with a dimension
  also precompute the wrapped dimension.
\<close>

definition all_dim_meta :: "'a Tensor \<Rightarrow> int \<Rightarrow> bool \<Rightarrow> 'b Tensor option \<Rightarrow> error + output_decl \<times> nat" where
  "all_dim_meta self d keepdim result =
     and_then (allany_meta ''all'' self [d] keepdim result) (\<lambda>decl.
     and_then (maybe_wrap_dim d (ndimension self)) (\<lambda>wrapped. Inr (decl, wrapped)))"

definition all_meta :: "'a Tensor \<Rightarrow> 'b Tensor option \<Rightarrow> error + output_decl" where
  "all_meta self result = allany_meta ''all'' self [] False result"

definition any_dim_meta :: "'a Tensor \<Rightarrow> int \<Rightarrow> bool \<Rightarrow> 'b Tensor option \<Rightarrow> error + output_decl \<times> nat" where
  "any_dim_meta self d keepdim result =
     and_then (allany_meta ''any'' self [d] keepdim result) (\<lambda>decl.
     and_then (maybe_wrap_dim d (ndimension self)) (\<lambda>wrapped. Inr (decl, wrapped)))"

definition any_meta :: "'a Tensor \<Rightarrow> 'b Tensor option \<Rightarrow> error + output_decl" where
  "any_meta self result = allany_meta ''any'' self [] False result"

subsection \<open>argmax and argmin\<close>

text \<open>
  Modelled from the spec: \<open>zero_numel_check_dims\<close> (ReduceOpsUtils.h is not in this file),
  section 7, EmptyReductionNoIdentity: "reducing zero elements along a dimension for an
  operator without a defined identity". The dimension it is given is already wrapped; a
  scalar has one element to reduce.
\<close>

definition zero_numel_check_dims :: "'a Tensor \<Rightarrow> nat \<Rightarrow> string \<Rightarrow> error + unit" where
  "zero_numel_check_dims self d fn_name =
     (if ndimension self = 0 then
        (if d = 0 then Inr ()
         else Inl (IndexError (fn_name @ '': Expected reduction dim -1 or 0 for scalar'')))
      else if sizes self ! d \<noteq> 0 then Inr ()
      else Inl (IndexError (fn_name @ '': Expected reduction dim to have non-zero size.'')))"

definition check_argmax_argmin :: "string \<Rightarrow> 'a Tensor \<Rightarrow> int option \<Rightarrow> error + unit" where
  "check_argmax_argmin name self dim_opt =
     (case dim_opt of
        Some d \<Rightarrow>
          and_then (maybe_wrap_dim d (ndimension self)) (\<lambda>wrapped.
            zero_numel_check_dims self wrapped name)
      | None \<Rightarrow>
          if numel self \<noteq> 0 then Inr ()
          else Inl (IndexError
                 (name @ '': Expected reduction dim to be specified for input.numel() == 0.'')))"

definition argmax_meta :: "'a Tensor \<Rightarrow> int option \<Rightarrow> bool \<Rightarrow> error + output_decl" where
  "argmax_meta self dim_opt keepdim =
     and_then (check_argmax_argmin ''argmax()'' self dim_opt) (\<lambda>_.
       resize_reduction self (optional_to_arrayref dim_opt) keepdim kLong)"

definition argmin_meta :: "'a Tensor \<Rightarrow> int option \<Rightarrow> bool \<Rightarrow> error + output_decl" where
  "argmin_meta self dim_opt keepdim =
     and_then (check_argmax_argmin ''argmin()'' self dim_opt) (\<lambda>_.
       resize_reduction self (optional_to_arrayref dim_opt) keepdim kLong)"

subsection \<open>cumsum and cumprod\<close>

definition meta_func_cum_ops ::
  "string \<Rightarrow> 'a Tensor \<Rightarrow> int \<Rightarrow> ScalarType option \<Rightarrow> 'b Tensor option \<Rightarrow> error + output_decl" where
  "meta_func_cum_ops name self d dtype_opt result =
     and_then (maybe_wrap_dim d (ndimension self)) (\<lambda>_.
       let out_dtype =
             (case result of
                Some r \<Rightarrow> (case dtype_opt of Some t \<Rightarrow> t | None \<Rightarrow> scalar_type r)
              | None \<Rightarrow>
                  let is_integral = isIntegralType (scalar_type self) True
                  in (case dtype_opt of
                        Some t \<Rightarrow> t
                      | None \<Rightarrow> if is_integral then kLong else scalar_type self))
       in Inr (sizes self, (options self)\<lparr>dtype := out_dtype\<rparr>))"


definition cumprod_meta :: "'a Tensor \<Rightarrow> int \<Rightarrow> ScalarType option \<Rightarrow> 'b Tensor option \<Rightarrow> error + output_decl" where
  "cumprod_meta self d dtype_opt result = meta_func_cum_ops ''cumprod'' self d dtype_opt result"

subsection \<open>sum\<close>

definition sum_meta ::
  "'a Tensor \<Rightarrow> int list \<Rightarrow> bool \<Rightarrow> ScalarType option \<Rightarrow> 'b Tensor option \<Rightarrow> error + output_decl" where
  "sum_meta self dims keepdim opt_dtype result =
     (let out_dtype = infer_dtype_from_optional self dims keepdim opt_dtype result
      in resize_reduction self dims keepdim out_dtype)"

subsection \<open>The range of a dimension argument\<close>

text \<open>
  The dimension arguments a tensor of a given rank accepts, and the dimension such an argument
  denotes: \<open>[-rank, rank)\<close>, negative values counting from the end, a rank-0 tensor being
  taken as of rank 1.
\<close>

definition dim_in_range :: "int \<Rightarrow> nat \<Rightarrow> bool" where
  "dim_in_range d rank = (- max 1 (int rank) \<le> d \<and> d < max 1 (int rank))"

definition wrapped_dim :: "int \<Rightarrow> nat \<Rightarrow> nat" where
  "wrapped_dim d rank = nat (if d < 0 then d + max 1 (int rank) else d)"

section \<open>The operators\<close>

text \<open>
  The kernels behind the dispatch stubs (\<open>sum_stub\<close>, \<open>nansum_stub\<close>, \<open>and_stub\<close>, \<open>or_stub\<close>,
  \<open>cumsum_stub\<close>, \<open>cumprod_stub\<close>, \<open>std_var_stub\<close>) are registered elsewhere; an operator
  takes its stub as a parameter. A stub that works through an iteration plan is given the plan,
  the input and the output, and returns the output as the kernel leaves it.
\<close>

type_synonym ('a, 'b) reduce_stub = "TensorIterator \<Rightarrow> 'a Tensor \<Rightarrow> 'b Tensor \<Rightarrow> 'b Tensor"

type_synonym cum_stub = "DeviceType \<Rightarrow> scalar_t Tensor \<Rightarrow> scalar_t Tensor \<Rightarrow> nat \<Rightarrow> scalar_t Tensor"

subsection \<open>cumsum and cumprod\<close>

text \<open>
  The output \<open>result\<close> has the dtype that \<open>meta_func_cum_ops\<close> chose, which need not be the
  dtype of \<open>self\<close>: \<open>result.fill_(self)\<close> and \<open>self.to(result.scalar_type())\<close> convert.
\<close>

definition impl_func_cum_ops ::
  "rounding \<Rightarrow> scalar_t Tensor \<Rightarrow> int \<Rightarrow> ScalarType option \<Rightarrow> scalar_t Tensor \<Rightarrow> cum_stub \<Rightarrow>
   error + scalar_t Tensor" where
  "impl_func_cum_ops rnd self d dtype_opt result stub =
     (if ndimension self = 0 then Inr (fill_tensor rnd result self)
      else if numel self = 0 then Inr (zero_inplace result)
      else and_then (maybe_wrap_dim d (ndimension self)) (\<lambda>wrapped.
             Inr (stub (device self) result (to_converted rnd self (scalar_type result)) wrapped)))"


definition cumprod_out ::
  "rounding \<Rightarrow> cum_stub \<Rightarrow> scalar_t Tensor \<Rightarrow> int \<Rightarrow> ScalarType option \<Rightarrow> scalar_t Tensor \<Rightarrow>
   error + scalar_t Tensor" where
  "cumprod_out rnd cumprod_stub self d dtype_opt result =
     impl_func_cum_ops rnd self d dtype_opt result cumprod_stub"


definition at_cumprod ::
  "rounding \<Rightarrow> cum_stub \<Rightarrow> scalar_t Tensor \<Rightarrow> int \<Rightarrow> ScalarType option \<Rightarrow> error + scalar_t Tensor" where
  "at_cumprod rnd cumprod_stub self d dtype_opt =
     and_then (cumprod_meta self d dtype_opt (None :: scalar_t Tensor option)) (\<lambda>decl.
     and_then (set_output None decl) (\<lambda>out.
       cumprod_out rnd cumprod_stub self d dtype_opt out))"

subsection \<open>sum and nansum\<close>

definition sum_out ::
  "('a, 'b) reduce_stub \<Rightarrow> 'a Tensor \<Rightarrow> int list \<Rightarrow> bool \<Rightarrow> ScalarType option \<Rightarrow> 'b::zero Tensor \<Rightarrow>
   error + 'b Tensor" where
  "sum_out sum_stub self dims keepdim opt_dtype result =
     and_then (make_reduction_from_out_ty self result dims keepdim (scalar_type result)) (\<lambda>iter.
       if iter_numel iter = 0 then Inr (zero_inplace result)
       else Inr (sum_stub iter self result))"

text \<open>
  Modelled from the spec: \<open>at::sum_out\<close> and \<open>at::sum\<close>, the generated entry points of the
  operator (not in this file). Validation comes first (section 7), then the output of
  section 3, "Output Ownership", then the kernel.
\<close>

definition at_sum_out ::
  "('a, 'b) reduce_stub \<Rightarrow> 'b::zero Tensor \<Rightarrow> 'a Tensor \<Rightarrow> int list \<Rightarrow> bool \<Rightarrow> ScalarType option \<Rightarrow>
   error + 'b Tensor" where
  "at_sum_out sum_stub result self dims keepdim opt_dtype =
     and_then (sum_meta self dims keepdim opt_dtype (Some result)) (\<lambda>decl.
     and_then (set_output (Some result) decl) (\<lambda>out.
       sum_out sum_stub self dims keepdim opt_dtype out))"

definition at_sum ::
  "('a, 'b) reduce_stub \<Rightarrow> 'a Tensor \<Rightarrow> int list \<Rightarrow> bool \<Rightarrow> ScalarType option \<Rightarrow> error + 'b::zero Tensor" where
  "at_sum sum_stub self dims keepdim opt_dtype =
     and_then (sum_meta self dims keepdim opt_dtype (None :: 'b Tensor option)) (\<lambda>decl.
     and_then (set_output None decl) (\<lambda>out.
       sum_out sum_stub self dims keepdim opt_dtype out))"

definition get_dtype_from_result :: "'b Tensor option \<Rightarrow> ScalarType option \<Rightarrow> error + ScalarType" where
  "get_dtype_from_result result dtype_opt =
     (case result of
        None \<Rightarrow> Inl (Error ''Cannot create a new tensor inside a reduction op.'')
      | Some r \<Rightarrow> (case dtype_opt of Some d \<Rightarrow> Inr d | None \<Rightarrow> Inr (scalar_type r)))"

text \<open>
  Modelled from the spec: \<open>native::make_reduction\<close> and \<open>create_reduction_result\<close>
  (ReduceOpsUtils.h). \<open>make_reduction\<close> checks the dtype of the output, resizes the output to
  the shape of section 4.1 and builds the iteration plan of section 3;
  \<open>create_reduction_result\<close> allocates an output of that shape.
\<close>

definition make_reduction_in_out ::
  "string \<Rightarrow> 'b Tensor \<Rightarrow> 'a Tensor \<Rightarrow> int list option \<Rightarrow> bool \<Rightarrow> ScalarType \<Rightarrow> ScalarType \<Rightarrow>
   error + 'b Tensor \<times> TensorIterator" where
  "make_reduction_in_out name result self dim_opt keepdim in_dtype out_dtype =
     (if scalar_type result \<noteq> out_dtype
      then Inl (Error (name @ '': provided dtype must match dtype of result.''))
      else
        let dims = (case dim_opt of Some ds \<Rightarrow> ds | None \<Rightarrow> [])
        in and_then (make_dim_mask dims (ndimension self)) (\<lambda>dim_mask.
             Inr (result\<lparr>sizes := shape_from_dim_mask self dim_mask keepdim\<rparr>,
                  \<lparr>iter_shape = sizes self, iter_numel = numel self,
                   iter_common_dtype = in_dtype, iter_device_type = device self\<rparr>)))"

definition make_reduction ::
  "string \<Rightarrow> 'b Tensor \<Rightarrow> 'a Tensor \<Rightarrow> int list option \<Rightarrow> bool \<Rightarrow> ScalarType \<Rightarrow>
   error + 'b Tensor \<times> TensorIterator" where
  "make_reduction name result self dim_opt keepdim out_dtype =
     (let gpu_lowp_to_f32 =
            (device self = kCUDA \<and> (scalar_type self = kHalf \<or> scalar_type self = kBFloat16)
             \<and> out_dtype = kFloat);
          in_dtype = (if gpu_lowp_to_f32 then scalar_type self else out_dtype)
      in make_reduction_in_out name result self dim_opt keepdim in_dtype out_dtype)"

definition create_reduction_result ::
  "'a Tensor \<Rightarrow> int list \<Rightarrow> bool \<Rightarrow> ScalarType \<Rightarrow> error + 'b Tensor" where
  "create_reduction_result self dims keepdim dt =
     and_then (make_dim_mask dims (ndimension self)) (\<lambda>dim_mask.
       Inr (at_empty (shape_from_dim_mask self dim_mask keepdim) ((options self)\<lparr>dtype := dt\<rparr>)))"

definition nansum_out ::
  "('a, 'b) reduce_stub \<Rightarrow> ('a, 'b) reduce_stub \<Rightarrow>
   'a Tensor \<Rightarrow> int list \<Rightarrow> bool \<Rightarrow> ScalarType option \<Rightarrow> 'b::zero Tensor \<Rightarrow> error + 'b Tensor" where
  "nansum_out sum_stub nansum_stub self dims keepdim opt_dtype result =
     (if isComplexType (scalar_type self)
      then Inl (Error ''nansum does not support complex inputs'')
      else if isIntegralType (scalar_type self) True
      then at_sum_out sum_stub result self dims keepdim opt_dtype
      else
        and_then (get_dtype_from_result (Some result) opt_dtype) (\<lambda>dt.
        and_then (make_reduction ''nansum'' result self (Some dims) keepdim dt) (\<lambda>(result', iter).
          if iter_numel iter = 0 then Inr (zero_inplace result')
          else Inr (nansum_stub iter self result'))))"

definition nansum ::
  "('a, 'b) reduce_stub \<Rightarrow> ('a, 'b) reduce_stub \<Rightarrow>
   'a Tensor \<Rightarrow> int list \<Rightarrow> bool \<Rightarrow> ScalarType option \<Rightarrow> error + 'b::zero Tensor" where
  "nansum sum_stub nansum_stub self dims keepdim opt_dtype =
     (let dt = get_dtype_from_self self opt_dtype True
      in and_then (create_reduction_result self dims keepdim dt) (\<lambda>result.
           nansum_out sum_stub nansum_stub self dims keepdim (Some dt) result))"

subsection \<open>all and any\<close>

definition get_allany_iter ::
  "'a Tensor \<Rightarrow> 'b Tensor \<Rightarrow> int list \<Rightarrow> bool \<Rightarrow> error + TensorIterator" where
  "get_allany_iter self result dims keepdim =
     (if device self = kCUDA
      then make_reduction_meta self result dims keepdim (scalar_type self)
      else make_reduction_from_out_ty self result dims keepdim (scalar_type result))"

text \<open>\<open>Scalar::toBool\<close>: a value is true when it is not zero.\<close>

definition toBool :: "'a::zero \<Rightarrow> bool" where
  "toBool v = (v \<noteq> 0)"

text \<open>
  \<open>allany_impl\<close> returns the output together with the iteration plan it built, \<open>None\<close> when
  it built none.
\<close>

definition allany_impl ::
  "int \<Rightarrow> 'a::zero Tensor \<Rightarrow> 'b::ring_1 Tensor \<Rightarrow> int list \<Rightarrow> bool \<Rightarrow> ('a, 'b) reduce_stub \<Rightarrow>
   error + TensorIterator option \<times> 'b Tensor" where
  "allany_impl identity self result dims keepdim stub =
     (if numel self = 0 then Inr (None, fill_inplace result (of_int identity))
      else if numel self = 1 then Inr (None, fill_inplace result (of_bool (toBool (item self))))
      else and_then (get_allany_iter self result dims keepdim) (\<lambda>iter.
             Inr (Some iter, stub iter self result)))"

definition all_out ::
  "('a, 'b) reduce_stub \<Rightarrow> 'a::zero Tensor \<Rightarrow> int \<Rightarrow> bool \<Rightarrow> 'b::ring_1 Tensor \<Rightarrow>
   error + TensorIterator option \<times> 'b Tensor" where
  "all_out and_stub self d keepdim result = allany_impl 1 self result [d] keepdim and_stub"

definition all_all_out ::
  "('a, 'b) reduce_stub \<Rightarrow> 'a::zero Tensor \<Rightarrow> 'b::ring_1 Tensor \<Rightarrow>
   error + TensorIterator option \<times> 'b Tensor" where
  "all_all_out and_stub self result = allany_impl 1 self result [] False and_stub"

definition any_out ::
  "('a, 'b) reduce_stub \<Rightarrow> 'a::zero Tensor \<Rightarrow> int \<Rightarrow> bool \<Rightarrow> 'b::ring_1 Tensor \<Rightarrow>
   error + TensorIterator option \<times> 'b Tensor" where
  "any_out or_stub self d keepdim result = allany_impl 0 self result [d] keepdim or_stub"

definition any_all_out ::
  "('a, 'b) reduce_stub \<Rightarrow> 'a::zero Tensor \<Rightarrow> 'b::ring_1 Tensor \<Rightarrow>
   error + TensorIterator option \<times> 'b Tensor" where
  "any_all_out or_stub self result = allany_impl 0 self result [] False or_stub"

section \<open>var and std\<close>

subsection \<open>Arithmetic on double\<close>

text \<open>
  The operations of IEEE arithmetic that \<open>std_var_all_cpu\<close> uses. On the special values they
  are as the standard has them; on finite values the exact result is rounded by the rounding
  \<open>rd\<close> of the type, which also decides when a result overflows to an infinity. A zero
  divisor is the positive zero: the only divisor computed here, \<open>std::max(int64_t{0}, ...)\<close>
  converted to double, is never the negative zero.
\<close>

fun dneg :: "double \<Rightarrow> double" where
  "dneg NaN = NaN"
| "dneg PInf = NInf"
| "dneg NInf = PInf"
| "dneg (Fin a) = Fin (- a)"

fun dadd :: "(real \<Rightarrow> double) \<Rightarrow> double \<Rightarrow> double \<Rightarrow> double" where
  "dadd rd NaN _ = NaN"
| "dadd rd _ NaN = NaN"
| "dadd rd PInf NInf = NaN"
| "dadd rd NInf PInf = NaN"
| "dadd rd PInf _ = PInf"
| "dadd rd _ PInf = PInf"
| "dadd rd NInf _ = NInf"
| "dadd rd _ NInf = NInf"
| "dadd rd (Fin a) (Fin b) = rd (a + b)"

definition dsub :: "(real \<Rightarrow> double) \<Rightarrow> double \<Rightarrow> double \<Rightarrow> double" where
  "dsub rd a b = dadd rd a (dneg b)"

fun dmul :: "(real \<Rightarrow> double) \<Rightarrow> double \<Rightarrow> double \<Rightarrow> double" where
  "dmul rd NaN _ = NaN"
| "dmul rd _ NaN = NaN"
| "dmul rd PInf PInf = PInf"
| "dmul rd PInf NInf = NInf"
| "dmul rd NInf PInf = NInf"
| "dmul rd NInf NInf = PInf"
| "dmul rd PInf (Fin b) = (if b = 0 then NaN else if 0 < b then PInf else NInf)"
| "dmul rd NInf (Fin b) = (if b = 0 then NaN else if 0 < b then NInf else PInf)"
| "dmul rd (Fin a) PInf = (if a = 0 then NaN else if 0 < a then PInf else NInf)"
| "dmul rd (Fin a) NInf = (if a = 0 then NaN else if 0 < a then NInf else PInf)"
| "dmul rd (Fin a) (Fin b) = rd (a * b)"

fun ddiv :: "(real \<Rightarrow> double) \<Rightarrow> double \<Rightarrow> double \<Rightarrow> double" where
  "ddiv rd NaN _ = NaN"
| "ddiv rd _ NaN = NaN"
| "ddiv rd PInf PInf = NaN"
| "ddiv rd PInf NInf = NaN"
| "ddiv rd NInf PInf = NaN"
| "ddiv rd NInf NInf = NaN"
| "ddiv rd PInf (Fin b) = (if b < 0 then NInf else PInf)"
| "ddiv rd NInf (Fin b) = (if b < 0 then PInf else NInf)"
| "ddiv rd (Fin a) PInf = Fin 0"
| "ddiv rd (Fin a) NInf = Fin 0"
| "ddiv rd (Fin a) (Fin b) =
     (if b = 0 then (if a = 0 then NaN else if 0 < a then PInf else NInf) else rd (a / b))"

fun dsqrt :: "(real \<Rightarrow> double) \<Rightarrow> double \<Rightarrow> double" where
  "dsqrt rd NaN = NaN"
| "dsqrt rd PInf = PInf"
| "dsqrt rd NInf = NaN"
| "dsqrt rd (Fin a) = (if a < 0 then NaN else rd (sqrt a))"

text \<open>
  \<open>static_cast<float>\<close> of a double: a finite value is rounded to a float, to an infinity
  when it is out of the range of a float ("Convert to infinity if out of range for a float");
  NaN and the infinities are kept.
\<close>

fun static_cast_float :: "rounding \<Rightarrow> double \<Rightarrow> double" where
  "static_cast_float rnd (Fin a) = rnd kFloat a"
| "static_cast_float rnd v = v"

text \<open>
  The type \<open>int64_t\<close>, in which the divisor is computed: \<open>int64\<close> is the value a mathematical
  result has in that type, by wrap-around.
\<close>

definition int64 :: "int \<Rightarrow> int" where
  "int64 v = wrap_signed 64 v"

definition in_int64 :: "int \<Rightarrow> bool" where
  "in_int64 v = (- (2 ^ 63) \<le> v \<and> v < 2 ^ 63)"

subsection \<open>The whole-tensor reduction on the CPU\<close>

text \<open>
  A tensor that may be complex holds pairs of doubles, the real and the imaginary part; a tensor
  of a floating dtype holds its values in the real parts. \<open>at::real\<close> and \<open>at::imag\<close> view the
  components of a complex tensor as tensors of the real value type.
\<close>

type_synonym c_double = "double \<times> double"

definition at_real :: "c_double Tensor \<Rightarrow> c_double Tensor" where
  "at_real t = t\<lparr>scalar_type := toRealValueType (scalar_type t),
                elem := (\<lambda>idx. (fst (elem t idx), Fin 0))\<rparr>"

definition at_imag :: "c_double Tensor \<Rightarrow> c_double Tensor" where
  "at_imag t = t\<lparr>scalar_type := toRealValueType (scalar_type t),
                elem := (\<lambda>idx. (snd (elem t idx), Fin 0))\<rparr>"

text \<open>
  What the environment of \<open>std_var_all_cpu\<close> supplies: the rounding of the floating dtypes;
  the value of \<open>self.sum()\<close>, computed by the sum kernel, which is not in this file; and the
  way \<open>at::parallel_reduce\<close> and \<open>serial_for_each\<close> cut the elements up, as the list of the
  chunks given to the threads, each chunk the list of the blocks that one call of the inner
  loop adds up, each block the elements in the order the loop visits them.
\<close>

record std_var_env =
  rounding_of :: rounding
  sum_kernel :: "c_double Tensor \<Rightarrow> double"
  chunks_of :: "c_double list \<Rightarrow> c_double list list list"

text \<open>
  \<open>self.mean().item<double>()\<close>. For a CPU tensor \<open>mean_out\<close> of this file computes
  \<open>at::sum_out(...).div_(dim_prod)\<close> with \<open>dim_prod = self.numel()\<close>, in the dtype of \<open>self\<close>;
  a value of that dtype is a double.
\<close>

definition mean_item :: "std_var_env \<Rightarrow> c_double Tensor \<Rightarrow> double" where
  "mean_item env self =
     (let rt = rounding_of env (scalar_type self)
      in ddiv rt (sum_kernel env self) (rt (real (numel self))))"

text \<open>
  \<open>((x - mean)**2).sum()\<close>, the value \<open>at::parallel_reduce\<close> returns. The inner loop adds the
  squares of one block up in \<open>local_sum\<close>, starting from 0.0, and adds \<open>local_sum\<close> to the
  \<open>thread_sum\<close> of its chunk; the sums of the chunks are added up with \<open>std::plus\<close>, starting
  from the identity 0.0.
\<close>

definition local_sum :: "(real \<Rightarrow> double) \<Rightarrow> double \<Rightarrow> c_double list \<Rightarrow> double" where
  "local_sum rd local_mean block =
     fold (\<lambda>x acc. let dx = dsub rd (fst x) local_mean in dadd rd acc (dmul rd dx dx)) block (Fin 0)"

definition thread_sum :: "(real \<Rightarrow> double) \<Rightarrow> double \<Rightarrow> c_double list list \<Rightarrow> double" where
  "thread_sum rd local_mean chunk =
     fold (\<lambda>block acc. dadd rd acc (local_sum rd local_mean block)) chunk (Fin 0)"

definition sum_dx2 :: "std_var_env \<Rightarrow> c_double Tensor \<Rightarrow> double" where
  "sum_dx2 env self =
     (let rd = rounding_of env kDouble;
          local_mean = mean_item env self
      in fold (\<lambda>chunk acc. dadd rd acc (thread_sum rd local_mean chunk))
           (chunks_of env (elements self)) (Fin 0))"

text \<open>
  The divisor \<open>std::max(int64_t{0}, self.numel() - correction)\<close>, an \<open>int64_t\<close> converted to
  double for the division.
\<close>

definition divisor :: "c_double Tensor \<Rightarrow> int \<Rightarrow> int" where
  "divisor self correction = max 0 (int64 (int (numel self) - correction))"

definition std_var_all_cpu :: "std_var_env \<Rightarrow> c_double Tensor \<Rightarrow> int \<Rightarrow> bool \<Rightarrow> error + double" where
  "std_var_all_cpu env self correction take_sqrt =
     (let dt = scalar_type self; rd = rounding_of env kDouble
      in if \<not> (dt = kDouble \<or> dt = kFloat) then Inl (Error ''std_var_all: Unsupported dtype'')
         else
           let var = ddiv rd (sum_dx2 env self) (rd (real_of_int (divisor self correction)));
               result = (if take_sqrt then dsqrt rd var else var)
           in if dt = kFloat then Inr (static_cast_float (rounding_of env) result) else Inr result)"

subsection \<open>std_var_out\<close>

text \<open>
  \<open>at::add_out\<close> and \<open>at::sqrt_out\<close> on real tensors: elementwise, into the output they are
  given, which takes the shape of the operands.
\<close>

definition add_out :: "rounding \<Rightarrow> double Tensor \<Rightarrow> double Tensor \<Rightarrow> double Tensor \<Rightarrow> double Tensor" where
  "add_out rnd result a b =
     result\<lparr>sizes := sizes a,
            elem := (\<lambda>idx. dadd (rnd (scalar_type result)) (elem a idx) (elem b idx))\<rparr>"

definition sqrt_out :: "rounding \<Rightarrow> double Tensor \<Rightarrow> double Tensor \<Rightarrow> double Tensor" where
  "sqrt_out rnd result a =
     result\<lparr>sizes := sizes a, elem := (\<lambda>idx. dsqrt (rnd (scalar_type result)) (elem a idx))\<rparr>"

type_synonym std_var_stub_t = "TensorIterator \<Rightarrow> int \<Rightarrow> bool \<Rightarrow> c_double Tensor \<Rightarrow> double Tensor \<Rightarrow> double Tensor"

function std_var_out ::
  "std_var_env \<Rightarrow> std_var_stub_t \<Rightarrow> string \<Rightarrow> double Tensor \<Rightarrow> c_double Tensor \<Rightarrow> int list option \<Rightarrow>
   int option \<Rightarrow> bool \<Rightarrow> bool \<Rightarrow> error + double Tensor" where
  "std_var_out env std_var_stub fname result self dim_opt correction_opt keepdim take_sqrt =
     (if \<not> (device self = kCPU \<or> device self = kCUDA)
      then Inl (Error ''std and var only supports tensors on a CPU or CUDA device'')
      else if layout self \<noteq> Strided
      then Inl (Error ''std and var only supports strided layout'')
      else if \<not> (isFloatingType (scalar_type self) \<or> isComplexType (scalar_type self))
      then Inl (Error ''std and var only support floating point and complex dtypes'')
      else if isComplexType (scalar_type self) then
        (case get_dtype_from_result (Some result) None of
           Inl e \<Rightarrow> Inl e
         | Inr rt \<Rightarrow>
             let dt = toRealValueType rt;
                 real_in = at_real self;
                 real_out = at_empty [0] ((options self)\<lparr>dtype := dt\<rparr>)
             in (case std_var_out env std_var_stub fname real_out real_in dim_opt correction_opt
                        keepdim False of
                   Inl e \<Rightarrow> Inl e
                 | Inr real_out' \<Rightarrow>
                     let imag_in = at_imag self;
                         imag_out = at_empty [0] ((options self)\<lparr>dtype := dt\<rparr>)
                     in (case std_var_out env std_var_stub fname imag_out imag_in dim_opt
                                correction_opt keepdim False of
                           Inl e \<Rightarrow> Inl e
                         | Inr imag_out' \<Rightarrow>
                             let result' = add_out (rounding_of env) result real_out' imag_out'
                             in if take_sqrt then Inr (sqrt_out (rounding_of env) result' result')
                                else Inr result')))
      else
        let correction = (case correction_opt of Some c \<Rightarrow> c | None \<Rightarrow> 1)
        in (case get_dtype_from_result (Some result) None of
              Inl e \<Rightarrow> Inl e
            | Inr dt \<Rightarrow>
                (case make_reduction fname result self dim_opt keepdim dt of
                   Inl e \<Rightarrow> Inl e
                 | Inr (result', iter) \<Rightarrow>
                     if iter_numel iter = 0 then Inr (fill_scalar (rounding_of env) result' NaN)
                     else if numel result' = 1 \<and> iter_device_type iter = kCPU
                             \<and> iter_common_dtype iter \<noteq> kBFloat16 \<and> iter_common_dtype iter \<noteq> kHalf
                     then (case std_var_all_cpu env self correction take_sqrt of
                             Inl e \<Rightarrow> Inl e
                           | Inr v \<Rightarrow> Inr (fill_scalar (rounding_of env) result' v))
                     else Inr (std_var_stub iter correction take_sqrt self result'))))"
  by pat_completeness auto
termination
proof (relation "measure (\<lambda>(env, stub, fname, result, self, rest).
                   if isComplexType (scalar_type self) then 1 else 0)")
  show "wf (measure (\<lambda>(env, stub, fname, result, self, rest).
          if isComplexType (scalar_type self) then 1 else (0::nat)))"
    by simp
qed (auto simp: at_real_def at_imag_def isComplexType_def elim: toRealValueType.elims)

text \<open>
  The operators: \<open>var\<close> and \<open>std\<close> with an optional list of dimensions and an optional
  correction; \<open>options_to_value_type\<close> gives the output the real value type of the input.
\<close>

definition options_to_value_type :: "TensorOptions \<Rightarrow> TensorOptions" where
  "options_to_value_type opts = opts\<lparr>dtype := toRealValueType (dtype opts)\<rparr>"

definition var ::
  "std_var_env \<Rightarrow> std_var_stub_t \<Rightarrow> c_double Tensor \<Rightarrow> int list option \<Rightarrow> int option \<Rightarrow> bool \<Rightarrow>
   error + double Tensor" where
  "var env std_var_stub self dim_opt correction_opt keepdim =
     (let result = at_empty [0] (options_to_value_type (options self))
      in std_var_out env std_var_stub ''var'' result self dim_opt correction_opt keepdim False)"

definition std ::
  "std_var_env \<Rightarrow> std_var_stub_t \<Rightarrow> c_double Tensor \<Rightarrow> int list option \<Rightarrow> int option \<Rightarrow> bool \<Rightarrow>
   error + double Tensor" where
  "std env std_var_stub self dim_opt correction_opt keepdim =
     (let result = at_empty [0] (options_to_value_type (options self))
      in std_var_out env std_var_stub ''std'' result self dim_opt correction_opt keepdim True)"

subsection \<open>Notions for the statements about var and std\<close>

text \<open>
  The values a sum of squares can take: NaN, the positive infinity, or a finite value that is
  not negative.
\<close>

definition sq_value :: "double \<Rightarrow> bool" where
  "sq_value v = (v = NaN \<or> v = PInf \<or> (\<exists>a. v = Fin a \<and> 0 \<le> a))"

text \<open>
  The tensor a reduction of \<open>self\<close> to one element returns when its value is \<open>v\<close>: of the
  given shape and of the real value type of \<open>self\<close>.
\<close>

definition one_element_result :: "c_double Tensor \<Rightarrow> nat list \<Rightarrow> double \<Rightarrow> double Tensor" where
  "one_element_result self shape v =
     \<lparr>sizes = shape, scalar_type = toRealValueType (scalar_type self), device = device self,
      layout = layout self, elem = (\<lambda>_. v)\<rparr>"

text \<open>
  The environment for concrete runs: exact rounding, the sum of the elements as the value of
  the sum kernel, and all elements in one block of one chunk.
\<close>

definition exact_sum :: "c_double Tensor \<Rightarrow> double" where
  "exact_sum self = fold (\<lambda>x acc. dadd Fin acc (fst x)) (elements self) (Fin 0)"

definition exact_env :: std_var_env where
  "exact_env = \<lparr>rounding_of = exact, sum_kernel = exact_sum, chunks_of = (\<lambda>xs. [[xs]])\<rparr>"

section \<open>cummax and cummin: the scan along one dimension\<close>

text \<open>
  \<open>cummax_cummin_helper\<close> works on three raw pointers, read and written at multiples of a
  stride. A pointer is modelled as the function from offsets to the values stored there; a write
  is a function update. The size of the dimension, the three strides, the loop index and
  \<open>idx\<close> are of the C type \<open>int\<close>: 32 bits, so that the offset \<open>i * stride\<close> is computed
  in 32 bits. \<open>int32\<close> is the value a mathematical result has in that type, by wrap-around.
\<close>

definition int32 :: "int \<Rightarrow> int" where
  "int32 v = (v + 2 ^ 31) mod 2 ^ 32 - 2 ^ 31"

definition in_int32 :: "int \<Rightarrow> bool" where
  "in_int32 v = (- (2 ^ 31) \<le> v \<and> v < 2 ^ 31)"

type_synonym scan_state = "scalar_t \<times> int \<times> (int \<Rightarrow> scalar_t) \<times> (int \<Rightarrow> int)"

definition cummax_cummin_step ::
  "(scalar_t \<Rightarrow> scalar_t \<Rightarrow> bool) \<Rightarrow> (int \<Rightarrow> scalar_t) \<Rightarrow> int \<Rightarrow> int \<Rightarrow> int \<Rightarrow>
   int \<Rightarrow> scan_state \<Rightarrow> scan_state" where
  "cummax_cummin_step operation self_data self_stride values_stride indices_stride i s =
     (case s of (out, idx, values_data, indices_data) \<Rightarrow>
        let curr_elem = self_data (int32 (i * self_stride));
            (out', idx') =
              (if isnan_t curr_elem \<or> (\<not> isnan_t out \<and> operation curr_elem out)
               then (self_data (int32 (i * self_stride)), i)
               else (out, idx))
        in (out', idx',
            values_data (int32 (i * values_stride) := out'),
            indices_data (int32 (i * indices_stride) := idx')))"

text \<open>
  The loop \<open>for (const auto i : c10::irange(self_dim_size))\<close> runs \<open>i\<close> from 0 up to
  \<open>self_dim_size - 1\<close>, and not at all when \<open>self_dim_size\<close> is not positive.
\<close>

definition cummax_cummin_helper ::
  "(scalar_t \<Rightarrow> scalar_t \<Rightarrow> bool) \<Rightarrow> (int \<Rightarrow> scalar_t) \<Rightarrow> (int \<Rightarrow> scalar_t) \<Rightarrow> (int \<Rightarrow> int) \<Rightarrow>
   int \<Rightarrow> int \<Rightarrow> int \<Rightarrow> int \<Rightarrow> (int \<Rightarrow> scalar_t) \<times> (int \<Rightarrow> int)" where
  "cummax_cummin_helper operation self_data values_data indices_data
       self_dim_size self_stride values_stride indices_stride =
     (case fold (cummax_cummin_step operation self_data self_stride values_stride indices_stride)
             (map int [0..<nat self_dim_size]) (self_data 0, 0, values_data, indices_data)
      of (out, idx, values_data', indices_data') \<Rightarrow> (values_data', indices_data'))"

text \<open>
  \<open>cummax_helper_cpu\<close> and \<open>cummin_helper_cpu\<close> instantiate the helper with
  \<open>std::greater_equal\<close> and \<open>std::less_equal\<close>; \<open>tensor_dim_apply3\<close> hands it one lane of the
  tensor along \<open>dim\<close> at a time, so one lane is what is modelled.
\<close>

definition cummax_helper_cpu ::
  "(int \<Rightarrow> scalar_t) \<Rightarrow> (int \<Rightarrow> scalar_t) \<Rightarrow> (int \<Rightarrow> int) \<Rightarrow> int \<Rightarrow> int \<Rightarrow> int \<Rightarrow> int \<Rightarrow>
   (int \<Rightarrow> scalar_t) \<times> (int \<Rightarrow> int)" where
  "cummax_helper_cpu = cummax_cummin_helper greater_equal"

definition cummin_helper_cpu ::
  "(int \<Rightarrow> scalar_t) \<Rightarrow> (int \<Rightarrow> scalar_t) \<Rightarrow> (int \<Rightarrow> int) \<Rightarrow> int \<Rightarrow> int \<Rightarrow> int \<Rightarrow> int \<Rightarrow>
   (int \<Rightarrow> scalar_t) \<times> (int \<Rightarrow> int)" where
  "cummin_helper_cpu = cummax_cummin_helper less_equal"

text \<open>A contiguous lane holding the elements of a list, for concrete runs.\<close>

definition lane :: "'a \<Rightarrow> 'a list \<Rightarrow> int \<Rightarrow> 'a" where
  "lane d xs i = (if 0 \<le> i \<and> i < int (length xs) then xs ! nat i else d)"

text \<open>
  The size and the strides are values of the type \<open>int\<close>, and no offset the loop computes
  leaves that type: with the index below the size, the largest is
  \<open>(self_dim_size - 1) * stride\<close>.
\<close>

definition scan_in_range :: "int \<Rightarrow> int \<Rightarrow> int \<Rightarrow> int \<Rightarrow> bool" where
  "scan_in_range self_dim_size self_stride values_stride indices_stride =
     (in_int32 self_dim_size \<and> in_int32 self_stride \<and> in_int32 values_stride
      \<and> in_int32 indices_stride
      \<and> in_int32 ((self_dim_size - 1) * self_stride)
      \<and> in_int32 ((self_dim_size - 1) * values_stride)
      \<and> in_int32 ((self_dim_size - 1) * indices_stride))"

text \<open>
  \<open>last_attained x ss i k v\<close>: among the first \<open>i + 1\<close> elements of the lane \<open>x\<close> (read
  with stride \<open>ss\<close>), position \<open>k\<close> is the last one that holds the value \<open>v\<close>.
\<close>

definition last_attained :: "(int \<Rightarrow> scalar_t) \<Rightarrow> int \<Rightarrow> int \<Rightarrow> int \<Rightarrow> scalar_t \<Rightarrow> bool" where
  "last_attained x ss i k v =
     (0 \<le> k \<and> k \<le> i \<and> x (k * ss) = v \<and> (\<forall>j. k < j \<and> j \<le> i \<longrightarrow> x (j * ss) \<noteq> v))"

text \<open>
  \<open>running_extremum cmp x ss i v\<close>: \<open>v\<close> is the running extremum of the first \<open>i + 1\<close>
  elements of the lane for the comparison \<open>cmp\<close>: NaN as soon as one of them is NaN, and
  otherwise a value that compares \<open>cmp\<close> to every one of them.
\<close>

definition running_extremum ::
  "(scalar_t \<Rightarrow> scalar_t \<Rightarrow> bool) \<Rightarrow> (int \<Rightarrow> scalar_t) \<Rightarrow> int \<Rightarrow> int \<Rightarrow> scalar_t \<Rightarrow> bool" where
  "running_extremum cmp x ss i v =
     (((\<exists>j. 0 \<le> j \<and> j \<le> i \<and> isnan_t (x (j * ss))) \<longrightarrow> v = NaN) \<and>
      ((\<forall>j. 0 \<le> j \<and> j \<le> i \<longrightarrow> \<not> isnan_t (x (j * ss))) \<longrightarrow>
         (\<forall>j. 0 \<le> j \<and> j \<le> i \<longrightarrow> cmp v (x (j * ss)))))"

text \<open>The loop invariant of the scan after \<open>m\<close> iterations.\<close>

definition scan_inv ::
  "(scalar_t \<Rightarrow> scalar_t \<Rightarrow> bool) \<Rightarrow> (int \<Rightarrow> scalar_t) \<Rightarrow> int \<Rightarrow> int \<Rightarrow> int \<Rightarrow> nat \<Rightarrow> scan_state \<Rightarrow> bool" where
  "scan_inv cmp x ss vs is m s =
     (case s of (out, idx, V, I) \<Rightarrow>
        (if m = 0 then idx = 0 \<and> out = x 0
         else last_attained x ss (int m - 1) idx out \<and> running_extremum cmp x ss (int m - 1) out) \<and>
        (\<forall>i<m. last_attained x ss (int i) (I (int i * is)) (V (int i * vs)) \<and>
               running_extremum cmp x ss (int i) (V (int i * vs))))"

text \<open>
  What the scan leaves at position \<open>i\<close> of its two outputs: the value is the running extremum
  for \<open>cmp\<close>, and the index is the last position up to \<open>i\<close> holding that value, hence \<open>i\<close>
  itself when the element at \<open>i\<close> equals it.
\<close>

definition latest_index_at ::
  "(scalar_t \<Rightarrow> scalar_t \<Rightarrow> bool) \<Rightarrow> (int \<Rightarrow> scalar_t) \<Rightarrow> int \<Rightarrow> int \<Rightarrow> int \<Rightarrow> int \<Rightarrow>
   (int \<Rightarrow> scalar_t) \<times> (int \<Rightarrow> int) \<Rightarrow> bool" where
  "latest_index_at cmp self_data self_stride values_stride indices_stride i r =
     (case r of (values, indices) \<Rightarrow>
        running_extremum cmp self_data self_stride i (values (i * values_stride)) \<and>
        last_attained self_data self_stride i (indices (i * indices_stride)) (values (i * values_stride)) \<and>
        (self_data (i * self_stride) = values (i * values_stride) \<longrightarrow> indices (i * indices_stride) = i))"

section \<open>cumprod_backward\<close>

subsection \<open>The tensor operators it calls\<close>

text \<open>
  Modelled from the spec: the ATen operators \<open>cumprod_backward\<close> calls on tensors (none is
  defined in this file); elementwise ones act on the element at each multi-index, the ones
  along a dimension \<open>d\<close> act on the lane through a multi-index, that is on the elements at
  \<open>idx[d := j]\<close>. \<open>cumsum\<close> and \<open>cumprod\<close> are the prefix scans of section 4.3, whose last
  element is the full reduction (section 8). Operands of an elementwise operator have the same
  shape; broadcasting is only modelled where the source asks for it (\<open>expand\<close>, \<open>expand_as\<close>).
  The elements are complex numbers and the operators compute in exact arithmetic; what is
  proved below of \<open>cumprod_backward\<close> concerns the returns that come before any arithmetic.
\<close>

definition with_elem :: "'a Tensor \<Rightarrow> ScalarType \<Rightarrow> (nat list \<Rightarrow> 'b) \<Rightarrow> 'b Tensor" where
  "with_elem t dt f =
     \<lparr>sizes = sizes t, scalar_type = dt, device = device t, layout = layout t, elem = f\<rparr>"

definition valid_index :: "nat list \<Rightarrow> nat list \<Rightarrow> bool" where
  "valid_index shape idx = (length idx = length shape \<and> (\<forall>i<length shape. idx ! i < shape ! i))"

definition conj_t :: "complex Tensor \<Rightarrow> complex Tensor" where
  "conj_t t = t\<lparr>elem := (\<lambda>idx. cnj (elem t idx))\<rparr>"

definition mul :: "'a::times Tensor \<Rightarrow> 'a Tensor \<Rightarrow> 'a Tensor" where
  "mul a b = a\<lparr>elem := (\<lambda>idx. elem a idx * elem b idx)\<rparr>"

definition div_t :: "'a::inverse Tensor \<Rightarrow> 'a Tensor \<Rightarrow> 'a Tensor" where
  "div_t a b = a\<lparr>elem := (\<lambda>idx. elem a idx / elem b idx)\<rparr>"

definition eq_scalar :: "'a Tensor \<Rightarrow> 'a \<Rightarrow> bool Tensor" where
  "eq_scalar t v = with_elem t kBool (\<lambda>idx. elem t idx = v)"

definition ne_scalar :: "'a Tensor \<Rightarrow> 'a \<Rightarrow> bool Tensor" where
  "ne_scalar t v = with_elem t kBool (\<lambda>idx. elem t idx \<noteq> v)"

definition logical_not :: "bool Tensor \<Rightarrow> bool Tensor" where
  "logical_not m = m\<lparr>elem := (\<lambda>idx. \<not> elem m idx)\<rparr>"

definition logical_and :: "bool Tensor \<Rightarrow> bool Tensor \<Rightarrow> bool Tensor" where
  "logical_and a b = a\<lparr>elem := (\<lambda>idx. elem a idx \<and> elem b idx)\<rparr>"

text \<open>\<open>is_zero.any().item<uint8_t>()\<close>: whether some element of the tensor is true.\<close>

definition any_item :: "bool Tensor \<Rightarrow> bool" where
  "any_item t = list_ex (\<lambda>idx. elem t idx) (all_indices (sizes t))"

definition zeros :: "nat list \<Rightarrow> TensorOptions \<Rightarrow> 'a::zero Tensor" where
  "zeros shape opts =
     \<lparr>sizes = shape, scalar_type = dtype opts, device = device_opt opts, layout = layout_opt opts,
      elem = (\<lambda>_. 0)\<rparr>"

definition ones :: "nat list \<Rightarrow> TensorOptions \<Rightarrow> 'a::one Tensor" where
  "ones shape opts =
     \<lparr>sizes = shape, scalar_type = dtype opts, device = device_opt opts, layout = layout_opt opts,
      elem = (\<lambda>_. 1)\<rparr>"

definition flip :: "'a Tensor \<Rightarrow> nat \<Rightarrow> 'a Tensor" where
  "flip t d = t\<lparr>elem := (\<lambda>idx. elem t (idx[d := sizes t ! d - 1 - idx ! d]))\<rparr>"

definition cumsum :: "'a::comm_monoid_add Tensor \<Rightarrow> nat \<Rightarrow> 'a Tensor" where
  "cumsum t d = t\<lparr>elem := (\<lambda>idx. \<Sum>j\<le>idx ! d. elem t (idx[d := j]))\<rparr>"

definition cumprod :: "'a::comm_monoid_mult Tensor \<Rightarrow> nat \<Rightarrow> 'a Tensor" where
  "cumprod t d = t\<lparr>elem := (\<lambda>idx. \<Prod>j\<le>idx ! d. elem t (idx[d := j]))\<rparr>"

text \<open>\<open>cumsum\<close> of a boolean tensor counts, in the dtype \<open>kLong\<close>.\<close>

definition cumsum_bool :: "bool Tensor \<Rightarrow> nat \<Rightarrow> nat Tensor" where
  "cumsum_bool t d =
     with_elem t kLong (\<lambda>idx. \<Sum>j\<le>idx ! d. if elem t (idx[d := j]) then 1 else 0)"

text \<open>
  \<open>t.slice(d, start, end)\<close> for \<open>0 <= start <= end <= size\<close>; \<open>slice_from\<close> is the call without
  an end.
\<close>

definition slice :: "'a Tensor \<Rightarrow> nat \<Rightarrow> nat \<Rightarrow> nat \<Rightarrow> 'a Tensor" where
  "slice t d start end =
     t\<lparr>sizes := (sizes t)[d := min end (sizes t ! d) - start],
       elem := (\<lambda>idx. elem t (idx[d := idx ! d + start]))\<rparr>"

definition slice_from :: "'a Tensor \<Rightarrow> nat \<Rightarrow> nat \<Rightarrow> 'a Tensor" where
  "slice_from t d start = slice t d start (sizes t ! d)"

text \<open>\<open>at::cat({a, b}, d)\<close>.\<close>

definition cat :: "'a Tensor \<Rightarrow> 'a Tensor \<Rightarrow> nat \<Rightarrow> 'a Tensor" where
  "cat a b d =
     a\<lparr>sizes := (sizes a)[d := sizes a ! d + sizes b ! d],
       elem := (\<lambda>idx. if idx ! d < sizes a ! d then elem a idx
                       else elem b (idx[d := idx ! d - sizes a ! d]))\<rparr>"

text \<open>Reductions along \<open>d\<close>: with \<open>keepdim\<close> the dimension stays with size 1, without it goes.\<close>

definition prod_keepdim :: "'a::comm_monoid_mult Tensor \<Rightarrow> nat \<Rightarrow> 'a Tensor" where
  "prod_keepdim t d =
     t\<lparr>sizes := (sizes t)[d := 1],
       elem := (\<lambda>idx. \<Prod>j<sizes t ! d. elem t (idx[d := j]))\<rparr>"

definition sum_keepdim :: "'a::comm_monoid_add Tensor \<Rightarrow> nat \<Rightarrow> 'a Tensor" where
  "sum_keepdim t d =
     t\<lparr>sizes := (sizes t)[d := 1],
       elem := (\<lambda>idx. \<Sum>j<sizes t ! d. elem t (idx[d := j]))\<rparr>"

definition insert_at :: "nat \<Rightarrow> 'a \<Rightarrow> 'a list \<Rightarrow> 'a list" where
  "insert_at d j idx = take d idx @ j # drop d idx"

definition remove_at :: "nat \<Rightarrow> 'a list \<Rightarrow> 'a list" where
  "remove_at d idx = take d idx @ drop (Suc d) idx"

definition sum_dim :: "'a::comm_monoid_add Tensor \<Rightarrow> nat \<Rightarrow> 'a Tensor" where
  "sum_dim t d =
     t\<lparr>sizes := remove_at d (sizes t),
       elem := (\<lambda>idx. \<Sum>j<sizes t ! d. elem t (insert_at d j idx))\<rparr>"

text \<open>
  \<open>a.expand_as(b)\<close>: the dimensions of size 1 of \<open>a\<close> are repeated to the sizes of \<open>b\<close>.
\<close>

definition expand_as :: "'a Tensor \<Rightarrow> 'b Tensor \<Rightarrow> 'a Tensor" where
  "expand_as a b =
     a\<lparr>sizes := sizes b,
       elem := (\<lambda>idx. elem a (map2 (\<lambda>s i. if s = 1 then 0 else i) (sizes a) idx))\<rparr>"

text \<open>\<open>self.select(d, k).copy_(src)\<close>: the slice of \<open>self\<close> at position \<open>k\<close> of \<open>d\<close> becomes \<open>src\<close>.\<close>

definition select_copy :: "'a Tensor \<Rightarrow> nat \<Rightarrow> nat \<Rightarrow> 'a Tensor \<Rightarrow> 'a Tensor" where
  "select_copy self d k src =
     self\<lparr>elem := (\<lambda>idx. if idx ! d = k then elem src (remove_at d idx) else elem self idx)\<rparr>"

text \<open>
  \<open>masked_fill\<close>; and \<open>self.masked_scatter_(mask, src.masked_select(mask))\<close>, which copies
  \<open>src\<close> (repeated along \<open>d\<close> when it has size 1 there) into \<open>self\<close> wherever the mask is true.
\<close>

definition masked_fill :: "'a Tensor \<Rightarrow> bool Tensor \<Rightarrow> 'a \<Rightarrow> 'a Tensor" where
  "masked_fill t m v = t\<lparr>elem := (\<lambda>idx. if elem m idx then v else elem t idx)\<rparr>"

definition masked_scatter_select :: "'a Tensor \<Rightarrow> bool Tensor \<Rightarrow> 'a Tensor \<Rightarrow> nat \<Rightarrow> 'a Tensor" where
  "masked_scatter_select self m src d =
     self\<lparr>elem := (\<lambda>idx. if elem m idx
                       then elem src (if sizes src ! d = 1 then idx[d := 0] else idx)
                       else elem self idx)\<rparr>"

text \<open>
  \<open>std::get<1>(m.max(d, /*keepdim*/ true))\<close> on a boolean tensor: along each lane the first
  position holding the maximum, that is the first true position, or 0 when the lane has none.
\<close>

definition max_indices :: "bool Tensor \<Rightarrow> nat \<Rightarrow> nat Tensor" where
  "max_indices m d =
     \<lparr>sizes = (sizes m)[d := 1], scalar_type = kLong, device = device m, layout = layout m,
      elem = (\<lambda>idx. case find (\<lambda>j. elem m (idx[d := j])) [0..<sizes m ! d] of
                      Some j \<Rightarrow> j | None \<Rightarrow> 0)\<rparr>"

text \<open>
  \<open>at::zeros_like(m).scatter_(d, index, 1)\<close> for an index tensor of size 1 along \<open>d\<close>: true at
  the position each lane's index names. \<open>at::gather(t, d, index)\<close> reads \<open>t\<close> there.
\<close>

definition scatter_one :: "bool Tensor \<Rightarrow> nat \<Rightarrow> nat Tensor \<Rightarrow> bool Tensor" where
  "scatter_one m d index = m\<lparr>elem := (\<lambda>idx. elem index (idx[d := 0]) = idx ! d)\<rparr>"

definition gather :: "'a Tensor \<Rightarrow> nat \<Rightarrow> nat Tensor \<Rightarrow> 'a Tensor" where
  "gather t d index =
     t\<lparr>sizes := sizes index, elem := (\<lambda>idx. elem t (idx[d := elem index idx]))\<rparr>"

text \<open>\<open>(index - 1).relu_()\<close>: the index before, and 0 for the index 0.\<close>

definition minus_one_relu :: "nat Tensor \<Rightarrow> nat Tensor" where
  "minus_one_relu index = index\<lparr>elem := (\<lambda>idx. elem index idx - 1)\<rparr>"

subsection \<open>The function\<close>

definition reversed_cumsum :: "'a::comm_monoid_add Tensor \<Rightarrow> nat \<Rightarrow> 'a Tensor" where
  "reversed_cumsum w d = flip (cumsum (flip w d) d) d"

text \<open>
  The branch for inputs with zeros when no second-order gradient is computed
  (\<open>!at::GradMode::is_enabled()\<close>), with the masks of the source.
\<close>

definition cumprod_backward_masked ::
  "complex Tensor \<Rightarrow> complex Tensor \<Rightarrow> complex Tensor \<Rightarrow> complex Tensor \<Rightarrow> bool Tensor \<Rightarrow> nat \<Rightarrow>
   complex Tensor \<Rightarrow> complex Tensor" where
  "cumprod_backward_masked grad input_conj output_conj w is_zero d grad_input =
     (let cs = cumsum_bool is_zero d;
          before_first_zero = eq_scalar cs 0;
          grad_input1 =
            masked_scatter_select grad_input before_first_zero
              (div_t (reversed_cumsum (masked_fill w (logical_not before_first_zero) 0) d) input_conj) d;
          from_first_zero = eq_scalar cs 1;
          first_zero_index = max_indices from_first_zero d;
          first_zero_mask = logical_and (scatter_one from_first_zero d first_zero_index) from_first_zero;
          after_first_zero = logical_and from_first_zero (logical_not first_zero_mask)
      in masked_scatter_select grad_input1 first_zero_mask
           (mul (sum_keepdim
                   (mul (cumprod (masked_fill input_conj (logical_not after_first_zero) 1) d)
                        (masked_fill grad (ne_scalar cs 1) 0)) d)
                (masked_fill (gather output_conj d (minus_one_relu first_zero_index))
                   (eq_scalar first_zero_index 0) 1)) d)"

text \<open>
  The branch for inputs with zeros under \<open>GradMode\<close>: for each position \<open>k\<close> of the
  dimension, the products of the input with \<open>x\<^sub>k\<close> omitted, then the sum of the incoming
  gradient against them. The loop over \<open>k\<close> is a recursion over the list of positions; the
  \<open>TORCH_CHECK\<close> inside it is the error branch.
\<close>

definition omitted_products_at ::
  "complex Tensor \<Rightarrow> complex Tensor \<Rightarrow> nat \<Rightarrow> nat \<Rightarrow> nat \<Rightarrow> complex Tensor" where
  "omitted_products_at grad input_conj d dim_size k =
     (let ones_t = ones ((sizes input_conj)[d := 1]) (options grad)
      in if k = 0 then
           let prods_from_k_plus_1 = cumprod (slice_from input_conj d (k + 1)) d
           in cat ones_t prods_from_k_plus_1 d
         else if k = dim_size - 1 then
           let prods_until_k = prod_keepdim (slice input_conj d 0 k) d
           in prods_until_k
         else
           let prods_until_k = prod_keepdim (slice input_conj d 0 k) d;
               prods_from_k_plus_1 = cumprod (slice_from input_conj d (k + 1)) d;
               omitted_products = mul (expand_as prods_until_k prods_from_k_plus_1) prods_from_k_plus_1
           in cat prods_until_k omitted_products d)"

fun omitted_products_loop ::
  "complex Tensor \<Rightarrow> complex Tensor \<Rightarrow> nat \<Rightarrow> nat \<Rightarrow> nat list \<Rightarrow> complex Tensor \<Rightarrow>
   error + complex Tensor" where
  "omitted_products_loop grad input_conj d dim_size [] grad_input = Inr grad_input"
| "omitted_products_loop grad input_conj d dim_size (k # ks) grad_input =
     (let omitted_products = omitted_products_at grad input_conj d dim_size k
      in if sizes omitted_products ! d \<noteq> dim_size - k
         then Inl (Error ''Expected omitted_products.size(dim) == dim_size - k to be true'')
         else omitted_products_loop grad input_conj d dim_size ks
                (select_copy grad_input d k
                   (sum_dim (mul (slice_from grad d k) omitted_products) d)))"

definition cumprod_backward_omitted ::
  "complex Tensor \<Rightarrow> complex Tensor \<Rightarrow> nat \<Rightarrow> nat \<Rightarrow> complex Tensor \<Rightarrow> error + complex Tensor" where
  "cumprod_backward_omitted grad input_conj d dim_size grad_input =
     omitted_products_loop grad input_conj d dim_size [0..<dim_size] grad_input"

text \<open>
  \<open>cumprod_backward\<close>. The global flag \<open>at::GradMode::is_enabled()\<close> is the last argument.
\<close>

definition cumprod_backward ::
  "complex Tensor \<Rightarrow> complex Tensor \<Rightarrow> int \<Rightarrow> complex Tensor \<Rightarrow> bool \<Rightarrow> error + complex Tensor" where
  "cumprod_backward grad input dim_arg output grad_mode_enabled =
     (if numel input \<le> 1 then Inr grad
      else
        and_then (maybe_wrap_dim dim_arg (ndimension input)) (\<lambda>d.
          let dim_size = sizes input ! d
          in if dim_size = 1 then Inr grad
             else
               let input_conj = conj_t input;
                   output_conj = conj_t output;
                   w = mul output_conj grad;
                   is_zero = eq_scalar input 0
               in if \<not> any_item is_zero
                  then Inr (div_t (reversed_cumsum w d) input_conj)
                  else
                    let grad_input = zeros (sizes input) (options grad)
                    in if \<not> grad_mode_enabled
                       then Inr (cumprod_backward_masked grad input_conj output_conj w is_zero d
                                   grad_input)
                       else cumprod_backward_omitted grad input_conj d dim_size grad_input))"

section \<open>Properties of the cummax and cummin scan\<close>

lemma isnan_t_iff: "isnan_t a \<longleftrightarrow> a = NaN"
  by (cases a) simp_all

lemma less_equal_refl: "\<not> isnan_t a \<longrightarrow> less_equal a a"
  by (cases a) simp_all

lemma less_equal_total: "\<not> isnan_t a \<and> \<not> isnan_t b \<longrightarrow> less_equal a b \<or> less_equal b a"
  by (cases a; cases b) auto

lemma less_equal_trans: "less_equal a b \<and> less_equal b c \<longrightarrow> less_equal a c"
  by (cases a; cases b; cases c) auto

lemma int32_id: "in_int32 v \<Longrightarrow> int32 v = v"
  by (simp add: int32_def in_int32_def)

lemma offset_in_int32:
  assumes "in_int32 ((n - 1) * s)" and "0 \<le> m" and "m < n"
  shows "in_int32 (m * s)"
proof (cases "0 \<le> s")
  case True
  with assms have "0 \<le> m * s" "m * s \<le> (n - 1) * s"
    by (simp_all add: mult_right_mono)
  with assms(1) show ?thesis by (simp add: in_int32_def)
next
  case False
  with assms have "m * s \<le> 0" "(n - 1) * s \<le> m * s"
    by (simp_all add: mult_le_0_iff mult_right_mono_neg)
  with assms(1) show ?thesis by (simp add: in_int32_def)
qed

lemma last_attained_here: "0 \<le> n \<Longrightarrow> last_attained x ss n n (x (n * ss))"
  by (auto simp: last_attained_def)

lemma last_attained_keep:
  assumes "last_attained x ss (n - 1) idx out" and "x (n * ss) \<noteq> out"
  shows "last_attained x ss n idx out"
proof -
  have "x (j * ss) \<noteq> out" if "idx < j" "j \<le> n" for j
  proof (cases "j = n")
    case True
    with assms(2) show ?thesis by simp
  next
    case False
    with that have "j \<le> n - 1" by simp
    with assms(1) that show ?thesis by (simp add: last_attained_def)
  qed
  with assms(1) show ?thesis by (auto simp: last_attained_def)
qed

lemma scan_inv_step:
  assumes refl: "\<forall>a. \<not> isnan_t a \<longrightarrow> cmp a a"
    and total: "\<forall>a b. \<not> isnan_t a \<and> \<not> isnan_t b \<longrightarrow> cmp a b \<or> cmp b a"
    and trans: "\<forall>a b c. cmp a b \<and> cmp b c \<longrightarrow> cmp a c"
    and vs: "0 < vs" and "is": "0 < is"
    and off: "int32 (int m * ss) = int m * ss" "int32 (int m * vs) = int m * vs"
      "int32 (int m * is) = int m * is"
    and inv: "scan_inv cmp x ss vs is m s"
  shows "scan_inv cmp x ss vs is (Suc m) (cummax_cummin_step cmp x ss vs is (int m) s)"
proof -
  obtain out idx V I where s: "s = (out, idx, V, I)"
    by (cases s) auto
  let ?c = "x (int m * ss)"
  from inv s have cur0: "m = 0 \<Longrightarrow> idx = 0 \<and> out = x 0"
    and cur: "m \<noteq> 0 \<Longrightarrow> last_attained x ss (int m - 1) idx out"
    and cure: "m \<noteq> 0 \<Longrightarrow> running_extremum cmp x ss (int m - 1) out"
    and old: "\<And>i. i < m \<Longrightarrow> last_attained x ss (int i) (I (int i * is)) (V (int i * vs)) \<and>
               running_extremum cmp x ss (int i) (V (int i * vs))"
    by (auto simp: scan_inv_def split: if_splits)
  have neq_v: "int i * vs \<noteq> int m * vs" if "i < m" for i using that vs by simp
  have neq_i: "int i * is \<noteq> int m * is" if "i < m" for i using that "is" by simp
  have rec: "scan_inv cmp x ss vs is (Suc m)
               (out', idx', V (int m * vs := out'), I (int m * is := idx'))"
    if "last_attained x ss (int m) idx' out'" and "running_extremum cmp x ss (int m) out'"
    for out' idx'
    unfolding scan_inv_def using that old neq_v neq_i by (auto simp: less_Suc_eq)
  have prefix: "j \<le> int m - 1 \<or> j = int m" if "j \<le> int m" for j
    using that by auto
  show ?thesis
  proof (cases "isnan_t ?c \<or> (\<not> isnan_t out \<and> cmp ?c out)")
    case True
    then have step: "cummax_cummin_step cmp x ss vs is (int m) s =
        (?c, int m, V (int m * vs := ?c), I (int m * is := int m))"
      by (auto simp: cummax_cummin_step_def s Let_def off)
    have e1: "?c = NaN" if "0 \<le> j" "j \<le> int m" "isnan_t (x (j * ss))" for j
    proof (cases "isnan_t ?c")
      case True
      then show ?thesis by (simp add: isnan_t_iff)
    next
      case False
      with \<open>isnan_t ?c \<or> (\<not> isnan_t out \<and> cmp ?c out)\<close> have o: "\<not> isnan_t out" by simp
      from False that prefix [of j] have j: "j \<le> int m - 1" by auto
      with that have "m \<noteq> 0" by auto
      with cure that j have "out = NaN" unfolding running_extremum_def by blast
      with o show ?thesis by simp
    qed
    have e2: "cmp ?c (x (j * ss))"
      if nonan: "\<forall>j. 0 \<le> j \<and> j \<le> int m \<longrightarrow> \<not> isnan_t (x (j * ss))" and "0 \<le> j" "j \<le> int m" for j
    proof (cases "j = int m")
      case True
      with nonan refl show ?thesis by auto
    next
      case False
      with that have j: "j \<le> int m - 1" by simp
      with that have m: "m \<noteq> 0" by auto
      from nonan have c: "\<not> isnan_t ?c" by auto
      with \<open>isnan_t ?c \<or> (\<not> isnan_t out \<and> cmp ?c out)\<close> have co: "cmp ?c out" by simp
      from nonan have "\<forall>j. 0 \<le> j \<and> j \<le> int m - 1 \<longrightarrow> \<not> isnan_t (x (j * ss))" by auto
      with cure [OF m] that j have "cmp out (x (j * ss))" unfolding running_extremum_def by blast
      with co trans show ?thesis by blast
    qed
    have "running_extremum cmp x ss (int m) ?c"
      unfolding running_extremum_def using e1 e2 by blast
    then show ?thesis
      unfolding step by (intro rec last_attained_here) simp_all
  next
    case False
    then have step: "cummax_cummin_step cmp x ss vs is (int m) s =
        (out, idx, V (int m * vs := out), I (int m * is := idx))"
      by (auto simp: cummax_cummin_step_def s Let_def off)
    from False have nn: "\<not> isnan_t ?c" by simp
    have ne: "?c \<noteq> out"
    proof
      assume e: "?c = out"
      with nn have "cmp ?c out" using refl by auto
      with False e nn show False by simp
    qed
    have m: "m \<noteq> 0"
    proof
      assume "m = 0"
      with cur0 have "out = ?c" by simp
      with ne show False by simp
    qed
    have la: "last_attained x ss (int m) idx out"
      using last_attained_keep [OF cur [OF m] ne] .
    have e1: "out = NaN" if "0 \<le> j" "j \<le> int m" "isnan_t (x (j * ss))" for j
    proof -
      from nn that prefix [of j] have j: "j \<le> int m - 1" by auto
      with cure [OF m] that show ?thesis unfolding running_extremum_def by blast
    qed
    have e2: "cmp out (x (j * ss))"
      if nonan: "\<forall>j. 0 \<le> j \<and> j \<le> int m \<longrightarrow> \<not> isnan_t (x (j * ss))" and "0 \<le> j" "j \<le> int m" for j
    proof (cases "j = int m")
      case True
      from cur [OF m] have "out = x (idx * ss)" "0 \<le> idx" "idx \<le> int m"
        by (auto simp: last_attained_def)
      with nonan have o: "\<not> isnan_t out" by auto
      with False nn have "\<not> cmp ?c out" by simp
      with total o nn have "cmp out ?c" by blast
      with True show ?thesis by simp
    next
      case False
      with that have j: "j \<le> int m - 1" by simp
      from nonan have "\<forall>j. 0 \<le> j \<and> j \<le> int m - 1 \<longrightarrow> \<not> isnan_t (x (j * ss))" by auto
      with cure [OF m] that j show ?thesis unfolding running_extremum_def by blast
    qed
    have "running_extremum cmp x ss (int m) out"
      unfolding running_extremum_def using e1 e2 by blast
    with la show ?thesis
      unfolding step by (intro rec)
  qed
qed

lemma scan_inv_fold:
  assumes refl: "\<forall>a. \<not> isnan_t a \<longrightarrow> cmp a a"
    and total: "\<forall>a b. \<not> isnan_t a \<and> \<not> isnan_t b \<longrightarrow> cmp a b \<or> cmp b a"
    and trans: "\<forall>a b c. cmp a b \<and> cmp b c \<longrightarrow> cmp a c"
    and vs: "0 < vs" and "is": "0 < is"
    and range: "scan_in_range n ss vs is"
    and m: "int m \<le> n"
  shows "scan_inv cmp x ss vs is m
           (fold (cummax_cummin_step cmp x ss vs is) (map int [0..<m]) (x 0, 0, V0, I0))"
  using m
proof (induction m)
  case 0
  show ?case by (simp add: scan_inv_def)
next
  case (Suc m)
  then have lt: "int m < n" and IH: "scan_inv cmp x ss vs is m
           (fold (cummax_cummin_step cmp x ss vs is) (map int [0..<m]) (x 0, 0, V0, I0))"
    by simp_all
  from range lt have "in_int32 (int m * ss)" "in_int32 (int m * vs)" "in_int32 (int m * is)"
    by (auto simp: scan_in_range_def intro: offset_in_int32)
  then have off: "int32 (int m * ss) = int m * ss" "int32 (int m * vs) = int m * vs"
      "int32 (int m * is) = int m * is"
    by (simp_all add: int32_id)
  show ?case
    using scan_inv_step [where cmp = cmp, OF refl total trans vs "is" off IH] by simp
qed

lemma helper_latest_index_at:
  assumes refl: "\<forall>a. \<not> isnan_t a \<longrightarrow> cmp a a"
    and total: "\<forall>a b. \<not> isnan_t a \<and> \<not> isnan_t b \<longrightarrow> cmp a b \<or> cmp b a"
    and trans: "\<forall>a b c. cmp a b \<and> cmp b c \<longrightarrow> cmp a c"
    and vs: "0 < vs" and "is": "0 < is"
    and range: "scan_in_range n ss vs is"
    and i: "0 \<le> i" "i < n"
  shows "latest_index_at cmp x ss vs is i (cummax_cummin_helper cmp x V0 I0 n ss vs is)"
proof -
  obtain out idx V I where
    f: "fold (cummax_cummin_step cmp x ss vs is) (map int [0..<nat n]) (x 0, 0, V0, I0) = (out, idx, V, I)"
    using prod_cases4 by blast
  from i have n: "int (nat n) \<le> n" and ni: "nat i < nat n" "int (nat i) = i" by simp_all
  from scan_inv_fold [where cmp = cmp, OF refl total trans vs "is" range n, of x V0 I0] f
  have "\<forall>k<nat n. last_attained x ss (int k) (I (int k * is)) (V (int k * vs)) \<and>
               running_extremum cmp x ss (int k) (V (int k * vs))"
    by (simp add: scan_inv_def)
  with ni(1) have "last_attained x ss (int (nat i)) (I (int (nat i) * is)) (V (int (nat i) * vs)) \<and>
               running_extremum cmp x ss (int (nat i)) (V (int (nat i) * vs))"
    by blast
  then have la: "last_attained x ss i (I (i * is)) (V (i * vs))"
    and re: "running_extremum cmp x ss i (V (i * vs))"
    by (simp_all only: ni(2))
  have "I (i * is) = i" if "x (i * ss) = V (i * vs)"
  proof (rule ccontr)
    assume "I (i * is) \<noteq> i"
    with la have "I (i * is) < i" by (simp add: last_attained_def)
    with la that show False by (auto simp: last_attained_def)
  qed
  with la re show ?thesis
    by (simp add: latest_index_at_def cummax_cummin_helper_def f)
qed

text \<open>
  C1 (as the code has it). The comparators of cummax and cummin are \<open>>=\<close> and \<open><=\<close>, so an
  element equal to the running extremum does replace the recorded index. Where no offset
  overflows the type \<open>int\<close>, for every position \<open>i\<close> of the lane the value written at \<open>i\<close> is
  the running maximum (for cummin the running minimum, and NaN once a NaN was met) of the
  elements up to \<open>i\<close>, and the index written at \<open>i\<close> is the last position up to \<open>i\<close> that
  holds that value; in particular, when the element at \<open>i\<close> equals the running extremum, the
  index written at \<open>i\<close> is \<open>i\<close> itself.
\<close>

theorem cummax_cummin_keeps_latest_index:
  assumes "0 < values_stride" and "0 < indices_stride"
    and "scan_in_range self_dim_size self_stride values_stride indices_stride"
    and "0 \<le> i" and "i < self_dim_size"
  shows "latest_index_at greater_equal self_data self_stride values_stride indices_stride i
           (cummax_helper_cpu self_data values_data indices_data
              self_dim_size self_stride values_stride indices_stride)
       \<and> latest_index_at less_equal self_data self_stride values_stride indices_stride i
           (cummin_helper_cpu self_data values_data indices_data
              self_dim_size self_stride values_stride indices_stride)"
proof -
  have ge: "\<forall>a. \<not> isnan_t a \<longrightarrow> greater_equal a a"
    "\<forall>a b. \<not> isnan_t a \<and> \<not> isnan_t b \<longrightarrow> greater_equal a b \<or> greater_equal b a"
    "\<forall>a b c. greater_equal a b \<and> greater_equal b c \<longrightarrow> greater_equal a c"
    using less_equal_refl less_equal_total less_equal_trans
    unfolding greater_equal_def by blast+
  have le: "\<forall>a. \<not> isnan_t a \<longrightarrow> less_equal a a"
    "\<forall>a b. \<not> isnan_t a \<and> \<not> isnan_t b \<longrightarrow> less_equal a b \<or> less_equal b a"
    "\<forall>a b c. less_equal a b \<and> less_equal b c \<longrightarrow> less_equal a c"
    using less_equal_refl less_equal_total less_equal_trans by blast+
  show ?thesis
    unfolding cummax_helper_cpu_def cummin_helper_cpu_def
    using helper_latest_index_at [where cmp = greater_equal, OF ge assms]
      helper_latest_index_at [where cmp = less_equal, OF le assms]
    by simp
qed

theorem cummax_cummin_keeps_latest_index_witness:
  "(0::int) < 1 \<and> scan_in_range 2 1 1 1 \<and> (0::int) \<le> 1 \<and> (1::int) < 2
   \<and> latest_index_at greater_equal (lane NaN [Fin 1, Fin 1]) 1 1 1 1
        (cummax_helper_cpu (lane NaN [Fin 1, Fin 1]) (\<lambda>_. NaN) (\<lambda>_. 0) 2 1 1 1)
   \<and> latest_index_at less_equal (lane NaN [Fin 1, Fin 1]) 1 1 1 1
        (cummin_helper_cpu (lane NaN [Fin 1, Fin 1]) (\<lambda>_. NaN) (\<lambda>_. 0) 2 1 1 1)"
  using cummax_cummin_keeps_latest_index [of 1 1 2 1 1 "lane NaN [Fin 1, Fin 1]" "\<lambda>_. NaN" "\<lambda>_. 0"]
  by (simp add: scan_in_range_def in_int32_def)

text \<open>
  C1 as the specification words it fails: cummax over the lane \<open>[1, 1]\<close> writes the indices
  \<open>[0, 1]\<close>, not \<open>[0, 0]\<close>.
\<close>

theorem cummax_tie_updates_index:
  "map (snd (cummax_helper_cpu (lane NaN [Fin 1, Fin 1]) (\<lambda>_. NaN) (\<lambda>_. 0) 2 1 1 1)) [0, 1] = [0, 1]
   \<and> map (snd (cummax_helper_cpu (lane NaN [Fin 1, Fin 1]) (\<lambda>_. NaN) (\<lambda>_. 0) 2 1 1 1)) [0, 1] \<noteq> [0, 0]"
  by (simp add: cummax_helper_cpu_def cummax_cummin_helper_def cummax_cummin_step_def lane_def
      greater_equal_def upt_rec Let_def int32_def)

section \<open>Properties of validation and dispatch\<close>

subsection \<open>Sequencing and dimension wrapping\<close>

lemma and_then_Inl [simp]: "and_then (Inl e) f = Inl e"
  by (simp add: and_then_def)

lemma and_then_Inr [simp]: "and_then (Inr x) f = f x"
  by (simp add: and_then_def)

lemma isl_and_then: "isl (and_then r f) \<longleftrightarrow> isl r \<or> isl (f (projr r))"
  by (cases r) simp_all

lemma maybe_wrap_dim_eq:
  "maybe_wrap_dim d rank =
     (if dim_in_range d rank then Inr (wrapped_dim d rank)
      else Inl (IndexError ''Dimension out of range''))"
  by (auto simp: maybe_wrap_dim_def dim_in_range_def wrapped_dim_def Let_def max_def)

lemma wrapped_dim_less: "dim_in_range d rank \<Longrightarrow> rank \<noteq> 0 \<Longrightarrow> wrapped_dim d rank < rank"
  by (auto simp: dim_in_range_def wrapped_dim_def max_def split: if_splits)

lemma wrapped_dim_rank0: "dim_in_range d 0 \<Longrightarrow> wrapped_dim d 0 = 0"
  by (auto simp: dim_in_range_def wrapped_dim_def)

lemma check_argmax_argmin_isl:
  "isl (check_argmax_argmin name self dim_opt) \<longleftrightarrow>
     (dim_opt = None \<and> numel self = 0) \<or>
     (\<exists>d. dim_opt = Some d \<and>
        (\<not> dim_in_range d (ndimension self) \<or>
         (ndimension self \<noteq> 0 \<and> sizes self ! wrapped_dim d (ndimension self) = 0)))"
  by (cases dim_opt)
     (auto simp: check_argmax_argmin_def maybe_wrap_dim_eq zero_numel_check_dims_def wrapped_dim_rank0)

lemma make_dim_mask_single:
  "dim_in_range d rank \<Longrightarrow> \<not> isl (make_dim_mask [d] rank)"
  by (simp add: make_dim_mask_def dim_list_to_bitset_def maybe_wrap_dim_eq)

lemma resize_reduction_ok:
  "dim_opt = None \<or> (\<exists>d. dim_opt = Some d \<and> dim_in_range d (ndimension self)) \<Longrightarrow>
   \<not> isl (resize_reduction self (optional_to_arrayref dim_opt) keepdim dt)"
  apply (cases dim_opt)
   apply (simp add: resize_reduction_def get_reduction_shape_def optional_to_arrayref_def make_dim_mask_def)
  apply (cases "make_dim_mask [the dim_opt] (ndimension self)")
  using make_dim_mask_single [of "the dim_opt" "ndimension self"]
   apply (auto simp: resize_reduction_def get_reduction_shape_def optional_to_arrayref_def)
  done

subsection \<open>argmax and argmin\<close>

text \<open>
  C4 (as the code has it). Validation in \<open>argmax\<close> and \<open>argmin\<close> raises exactly when (a) no
  dimension is given and the input has no element, or (b) a dimension is given and the input
  has size zero along the wrapped dimension, or (c) a dimension is given that is out of range,
  which the wrapping itself refuses. It runs in the meta function, before any kernel; for all
  other inputs the meta function raises nothing.
\<close>

theorem argmax_argmin_validation:
  "(isl (argmax_meta self dim_opt keepdim) \<longleftrightarrow>
      (dim_opt = None \<and> numel self = 0) \<or>
      (\<exists>d. dim_opt = Some d \<and>
         (\<not> dim_in_range d (ndimension self) \<or>
          (ndimension self \<noteq> 0 \<and> sizes self ! wrapped_dim d (ndimension self) = 0))))
   \<and> (isl (argmin_meta self dim_opt keepdim) \<longleftrightarrow> isl (argmax_meta self dim_opt keepdim))
   \<and> (isl (argmax_meta self dim_opt keepdim) \<longleftrightarrow> isl (check_argmax_argmin ''argmax()'' self dim_opt))
   \<and> (isl (argmin_meta self dim_opt keepdim) \<longleftrightarrow> isl (check_argmax_argmin ''argmin()'' self dim_opt))"
proof -
  have ok: "\<not> isl (resize_reduction self (optional_to_arrayref dim_opt) keepdim kLong)"
    if "\<not> isl (check_argmax_argmin name self dim_opt)" for name
    using that by (intro resize_reduction_ok) (auto simp: check_argmax_argmin_isl)
  have meta: "isl (argmax_meta self dim_opt keepdim) \<longleftrightarrow> isl (check_argmax_argmin ''argmax()'' self dim_opt)"
    "isl (argmin_meta self dim_opt keepdim) \<longleftrightarrow> isl (check_argmax_argmin ''argmin()'' self dim_opt)"
    using ok by (auto simp: argmax_meta_def argmin_meta_def isl_and_then)
  show ?thesis
    unfolding meta check_argmax_argmin_isl by simp
qed

theorem argmax_argmin_validation_witness:
  "isl (argmax_meta (vector kFloat [1, 2 :: int]) (Some 5) False)
   \<and> isl (argmin_meta (vector kFloat [1, 2 :: int]) (Some 5) False)
   \<and> \<not> isl (argmax_meta (vector kFloat [1, 2 :: int]) (Some (- 1)) False)
   \<and> isl (argmax_meta (vector kFloat ([] :: int list)) None False)"
  using argmax_argmin_validation [of "vector kFloat [1, 2 :: int]" "Some 5" False]
    argmax_argmin_validation [of "vector kFloat [1, 2 :: int]" "Some (- 1)" False]
    argmax_argmin_validation [of "vector kFloat ([] :: int list)" None False]
  by (simp add: vector_def cpu_tensor_def dim_in_range_def wrapped_dim_def ndimension_def numel_def)

text \<open>
  C4 as the specification words it fails: on a vector of two elements with \<open>dim = 5\<close> the
  validation raises, although the input has elements and no dimension of size zero.
\<close>

theorem argmax_out_of_range_dim_raises:
  "check_argmax_argmin ''argmax()'' (vector kFloat [1, 2 :: int]) (Some 5)
     = Inl (IndexError ''Dimension out of range'')
   \<and> argmax_meta (vector kFloat [1, 2 :: int]) (Some 5) False
     = Inl (IndexError ''Dimension out of range'')
   \<and> numel (vector kFloat [1, 2 :: int]) = 2
   \<and> sizes (vector kFloat [1, 2 :: int]) = [2]"
  by (simp add: argmax_meta_def check_argmax_argmin_def maybe_wrap_dim_def vector_def cpu_tensor_def
      ndimension_def numel_def)

subsection \<open>all and any: empty and one-element inputs\<close>

text \<open>
  C5. On an input with no element, \<open>all\<close> fills its output with 1 and \<open>any\<close> fills it with 0;
  on an input with exactly one element both fill it with the truth value of that element.
  Neither case builds an iteration plan, and neither can raise.
\<close>

theorem allany_empty_and_single:
  "(numel self = 0 \<longrightarrow>
      all_out and_stub self d keepdim result = Inr (None, result\<lparr>elem := (\<lambda>_. 1)\<rparr>)
    \<and> all_all_out and_stub self result = Inr (None, result\<lparr>elem := (\<lambda>_. 1)\<rparr>)
    \<and> any_out or_stub self d keepdim result = Inr (None, result\<lparr>elem := (\<lambda>_. 0)\<rparr>)
    \<and> any_all_out or_stub self result = Inr (None, result\<lparr>elem := (\<lambda>_. 0)\<rparr>))
   \<and> (numel self = 1 \<longrightarrow>
      all_out and_stub self d keepdim result
        = Inr (None, result\<lparr>elem := (\<lambda>_. if item self \<noteq> 0 then 1 else 0)\<rparr>)
    \<and> all_all_out and_stub self result
        = Inr (None, result\<lparr>elem := (\<lambda>_. if item self \<noteq> 0 then 1 else 0)\<rparr>)
    \<and> any_out or_stub self d keepdim result
        = Inr (None, result\<lparr>elem := (\<lambda>_. if item self \<noteq> 0 then 1 else 0)\<rparr>)
    \<and> any_all_out or_stub self result
        = Inr (None, result\<lparr>elem := (\<lambda>_. if item self \<noteq> 0 then 1 else 0)\<rparr>))"
  by (simp add: all_out_def all_all_out_def any_out_def any_all_out_def allany_impl_def
      fill_inplace_def toBool_def of_bool_def)

theorem allany_empty_and_single_witness:
  "all_all_out (\<lambda>_ _ r. r) (vector kFloat ([] :: int list)) (cpu_tensor [] kBool (\<lambda>_. 7 :: int))
     = Inr (None, cpu_tensor [] kBool (\<lambda>_. 1))
   \<and> any_all_out (\<lambda>_ _ r. r) (vector kFloat ([] :: int list)) (cpu_tensor [] kBool (\<lambda>_. 7 :: int))
     = Inr (None, cpu_tensor [] kBool (\<lambda>_. 0))
   \<and> all_all_out (\<lambda>_ _ r. r) (vector kFloat [0 :: int]) (cpu_tensor [] kBool (\<lambda>_. 7 :: int))
     = Inr (None, cpu_tensor [] kBool (\<lambda>_. 0))
   \<and> any_all_out (\<lambda>_ _ r. r) (vector kFloat [5 :: int]) (cpu_tensor [] kBool (\<lambda>_. 7 :: int))
     = Inr (None, cpu_tensor [] kBool (\<lambda>_. 1))"
  using allany_empty_and_single [of "vector kFloat ([] :: int list)" "\<lambda>_ _ r. r" 0 False
      "cpu_tensor [] kBool (\<lambda>_. 7 :: int)" "\<lambda>_ _ r. r"]
    allany_empty_and_single [of "vector kFloat [0 :: int]" "\<lambda>_ _ r. r" 0 False
      "cpu_tensor [] kBool (\<lambda>_. 7 :: int)" "\<lambda>_ _ r. r"]
    allany_empty_and_single [of "vector kFloat [5 :: int]" "\<lambda>_ _ r. r" 0 False
      "cpu_tensor [] kBool (\<lambda>_. 7 :: int)" "\<lambda>_ _ r. r"]
  by (simp add: vector_def cpu_tensor_def numel_def item_def ndimension_def)

subsection \<open>cumsum and cumprod: scalar and empty inputs\<close>







subsection \<open>nansum\<close>

lemma integral_not_complex: "isIntegralType t b \<Longrightarrow> \<not> isComplexType t"
  by (auto simp: isIntegralType_def isComplexType_def)

lemma create_reduction_result_eq:
  "create_reduction_result self dims keepdim dt =
     and_then (get_reduction_shape self dims keepdim) (\<lambda>shape.
       Inr (at_empty shape ((options self)\<lparr>dtype := dt\<rparr>)))"
  by (cases "make_dim_mask dims (ndimension self)")
     (simp_all add: create_reduction_result_def get_reduction_shape_def)

lemma nansum_integral_is_sum:
  assumes "isIntegralType (scalar_type self) True"
  shows "nansum sum_stub nansum_stub self dims keepdim opt_dtype
           = at_sum sum_stub self dims keepdim opt_dtype"
proof (cases "get_reduction_shape self dims keepdim")
  case (Inl e)
  then show ?thesis
    by (simp add: nansum_def at_sum_def create_reduction_result_eq sum_meta_def resize_reduction_def
        Let_def)
next
  case (Inr shape)
  let ?dt = "get_dtype_from_self self opt_dtype True"
  let ?out = "at_empty shape ((options self)\<lparr>dtype := ?dt\<rparr>) :: 'b Tensor"
  have a: "nansum sum_stub nansum_stub self dims keepdim opt_dtype
             = at_sum_out sum_stub ?out self dims keepdim (Some ?dt)"
    using assms Inr
    by (simp add: nansum_def create_reduction_result_eq nansum_out_def integral_not_complex Let_def)
  have b: "at_sum_out sum_stub ?out self dims keepdim (Some ?dt)
             = sum_out sum_stub self dims keepdim (Some ?dt) ?out"
    using Inr
    by (simp add: at_sum_out_def sum_meta_def infer_dtype_from_optional_def resize_reduction_def
        set_output_def at_empty_def options_def Let_def)
  have c: "at_sum sum_stub self dims keepdim opt_dtype
             = sum_out sum_stub self dims keepdim opt_dtype ?out"
    using Inr
    by (simp add: at_sum_def sum_meta_def infer_dtype_from_optional_def resize_reduction_def
        set_output_def Let_def)
  have d: "sum_out sum_stub self dims keepdim (Some ?dt) ?out
             = sum_out sum_stub self dims keepdim opt_dtype ?out"
    by (simp add: sum_out_def)
  show ?thesis by (simp only: a b c d)
qed

text \<open>
  C9. On an input of integral or boolean dtype \<open>nansum\<close> is \<open>sum\<close>: \<open>nansum_out\<close> hands its
  arguments to \<open>at::sum_out\<close> unchanged, and the functional \<open>nansum\<close> returns what \<open>at::sum\<close>
  returns for the same \<open>dim\<close>, \<open>keepdim\<close> and \<open>dtype\<close>, errors included. The NaN-skipping
  kernel is not reached.
\<close>

theorem nansum_integral_equals_sum:
  assumes "isIntegralType (scalar_type self) True"
  shows "nansum_out sum_stub nansum_stub self dims keepdim opt_dtype result
           = at_sum_out sum_stub result self dims keepdim opt_dtype
       \<and> nansum sum_stub nansum_stub self dims keepdim opt_dtype
           = at_sum sum_stub self dims keepdim opt_dtype"
  using assms nansum_integral_is_sum [OF assms]
  by (simp add: nansum_out_def integral_not_complex)

theorem nansum_integral_equals_sum_witness:
  "isIntegralType (scalar_type (vector kInt [1, 2 :: int])) True
   \<and> nansum_out (\<lambda>_ _ r. r) (\<lambda>_ _ r. fill_inplace r 9) (vector kInt [1, 2 :: int]) [0] False None
        (cpu_tensor [] kLong (\<lambda>_. 0 :: int))
     = at_sum_out (\<lambda>_ _ r. r) (cpu_tensor [] kLong (\<lambda>_. 0 :: int)) (vector kInt [1, 2 :: int]) [0]
         False None
   \<and> (nansum (\<lambda>_ _ r. r) (\<lambda>_ _ r. fill_inplace r 9) (vector kInt [1, 2 :: int]) [0] False None
        :: error + int Tensor)
     = at_sum (\<lambda>_ _ r. r) (vector kInt [1, 2 :: int]) [0] False None"
  using nansum_integral_equals_sum [of "vector kInt [1, 2 :: int]" "\<lambda>_ _ r. r"
      "\<lambda>_ _ r. fill_inplace r 9" "[0]" False None "cpu_tensor [] kLong (\<lambda>_. 0 :: int)"]
  by (simp add: isIntegralType_def vector_def cpu_tensor_def)

text \<open>
  C7 (as the code has it). \<open>nansum\<close>, unlike \<open>sum\<close>, does not take complex inputs: on every
  input of complex dtype \<open>nansum_out\<close> raises "nansum does not support complex inputs" before
  anything is summed, and so the functional \<open>nansum\<close> raises as well.
\<close>

theorem nansum_rejects_complex:
  assumes "isComplexType (scalar_type self)"
  shows "nansum_out sum_stub nansum_stub self dims keepdim opt_dtype result
           = Inl (Error ''nansum does not support complex inputs'')
       \<and> isl (nansum sum_stub nansum_stub self dims keepdim opt_dtype)"
proof -
  have "isl (nansum sum_stub nansum_stub self dims keepdim opt_dtype)"
    using assms
    by (cases "create_reduction_result self dims keepdim (get_dtype_from_self self opt_dtype True)
                 :: error + 'b Tensor")
       (simp_all add: nansum_def nansum_out_def Let_def)
  with assms show ?thesis by (simp add: nansum_out_def)
qed

theorem nansum_rejects_complex_witness:
  "isComplexType (scalar_type (vector kComplexFloat [1, 2 :: complex]))
   \<and> nansum_out (\<lambda>_ _ r. r) (\<lambda>_ _ r. r) (vector kComplexFloat [1, 2 :: complex]) [0] False None
        (cpu_tensor [] kComplexFloat (\<lambda>_. 0 :: complex))
     = Inl (Error ''nansum does not support complex inputs'')
   \<and> isl (nansum (\<lambda>_ _ r. r) (\<lambda>_ _ r. r) (vector kComplexFloat [1, 2 :: complex]) [0] False None
        :: error + complex Tensor)"
  using nansum_rejects_complex [of "vector kComplexFloat [1, 2 :: complex]" "\<lambda>_ _ r. r" "\<lambda>_ _ r. r"
      "[0]" False None "cpu_tensor [] kComplexFloat (\<lambda>_. 0 :: complex)"]
  by (simp add: isComplexType_def vector_def cpu_tensor_def)

text \<open>
  C7 as the specification words it fails: \<open>nansum\<close> of the complex vector \<open>[1, 2]\<close> over
  dimension 0 raises, where \<open>sum\<close> of the same vector reaches its kernel.
\<close>

theorem nansum_complex_vector_raises:
  "(nansum (\<lambda>_ _ r. r) (\<lambda>_ _ r. r) (vector kComplexFloat [1, 2 :: complex]) [0] False None
      :: error + complex Tensor)
     = Inl (Error ''nansum does not support complex inputs'')
   \<and> \<not> isl (at_sum (\<lambda>_ _ r. r) (vector kComplexFloat [1, 2 :: complex]) [0] False None
      :: error + complex Tensor)"
  by (simp add: nansum_def nansum_out_def create_reduction_result_def make_dim_mask_def
      dim_list_to_bitset_def maybe_wrap_dim_def get_dtype_from_self_def isIntegralType_def
      isComplexType_def vector_def cpu_tensor_def ndimension_def numel_def Let_def
      at_sum_def sum_meta_def infer_dtype_from_optional_def resize_reduction_def
      get_reduction_shape_def set_output_def sum_out_def make_reduction_from_out_ty_def
      make_reduction_meta_def shape_from_dim_mask_def at_empty_def options_def)

subsection \<open>all and any: the dtype of the result\<close>

lemma resize_reduction_dtype:
  "resize_reduction self dims keepdim dt = Inr decl \<Longrightarrow> dtype (snd decl) = dt"
  by (cases "get_reduction_shape self dims keepdim") (auto simp: resize_reduction_def)

lemma resize_reduction_all:
  "resize_reduction self [] False dt = Inr ([], (options self)\<lparr>dtype := dt\<rparr>)"
proof -
  have "concat (map (\<lambda>(s, m). if m then [] else [s]) (zip xs (replicate (length xs) True))) = []"
    for xs :: "nat list"
    by (induction xs) simp_all
  then show ?thesis
    by (simp add: resize_reduction_def get_reduction_shape_def make_dim_mask_def
        shape_from_dim_mask_def ndimension_def)
qed

text \<open>
  C8. Without an output from the caller, \<open>all\<close> and \<open>any\<close> declare an output of the 8-bit
  unsigned dtype when the input has that dtype and of the boolean dtype otherwise (the full
  reduction, for one, always gets that far). An output from the caller is refused with an error
  unless its dtype is boolean or 8-bit unsigned; when it is accepted, its dtype is the dtype
  of the result.
\<close>

theorem allany_result_dtype:
  "(\<forall>decl. allany_meta name self dims keepdim (None :: 'b Tensor option) = Inr decl \<longrightarrow>
      dtype (snd decl) = (if scalar_type self = kByte then kByte else kBool))
   \<and> all_meta self (None :: 'b Tensor option)
       = Inr ([], (options self)\<lparr>dtype := (if scalar_type self = kByte then kByte else kBool)\<rparr>)
   \<and> any_meta self (None :: 'b Tensor option)
       = Inr ([], (options self)\<lparr>dtype := (if scalar_type self = kByte then kByte else kBool)\<rparr>)
   \<and> (scalar_type (out :: 'b Tensor) \<noteq> kBool \<and> scalar_type out \<noteq> kByte \<longrightarrow>
        allany_meta name self dims keepdim (Some out)
          = Inl (Error (name @ '' only supports bool tensor for result'')))
   \<and> (\<forall>decl. allany_meta name self dims keepdim (Some out) = Inr decl \<longrightarrow>
        (scalar_type out = kBool \<or> scalar_type out = kByte) \<and> dtype (snd decl) = scalar_type out)
   \<and> (scalar_type out = kBool \<or> scalar_type out = kByte \<longrightarrow>
        all_meta self (Some out) = Inr ([], (options self)\<lparr>dtype := scalar_type out\<rparr>)
        \<and> any_meta self (Some out) = Inr ([], (options self)\<lparr>dtype := scalar_type out\<rparr>))"
proof -
  have none: "allany_meta name self dims keepdim (None :: 'b Tensor option)
      = resize_reduction self dims keepdim (if scalar_type self = kByte then kByte else kBool)" for name dims keepdim
    by (simp add: allany_meta_def check_result_is_bytebool_def get_result_or_bytebool_dtype_def)
  have some_ok: "allany_meta name self dims keepdim (Some out)
      = resize_reduction self dims keepdim (scalar_type out)"
    if "scalar_type out = kBool \<or> scalar_type out = kByte" for name dims keepdim
    using that
    by (auto simp: allany_meta_def check_result_is_bytebool_def get_result_or_bytebool_dtype_def)
  have some_bad: "allany_meta name self dims keepdim (Some out)
      = Inl (Error (name @ '' only supports bool tensor for result''))"
    if "scalar_type out \<noteq> kBool \<and> scalar_type out \<noteq> kByte" for name dims keepdim
    using that by (simp add: allany_meta_def check_result_is_bytebool_def)
  have accepted: "(scalar_type out = kBool \<or> scalar_type out = kByte) \<and> dtype (snd decl) = scalar_type out"
    if "allany_meta name self dims keepdim (Some out) = Inr decl" for decl
  proof (cases "scalar_type out = kBool \<or> scalar_type out = kByte")
    case True
    with that some_ok resize_reduction_dtype show ?thesis by metis
  next
    case False
    with that some_bad [of name dims keepdim] show ?thesis by simp
  qed
  have c1: "\<forall>decl. allany_meta name self dims keepdim (None :: 'b Tensor option) = Inr decl \<longrightarrow>
      dtype (snd decl) = (if scalar_type self = kByte then kByte else kBool)"
    unfolding none using resize_reduction_dtype by blast
  have c2: "all_meta self (None :: 'b Tensor option)
       = Inr ([], (options self)\<lparr>dtype := (if scalar_type self = kByte then kByte else kBool)\<rparr>)"
    unfolding all_meta_def none by (rule resize_reduction_all)
  have c3: "any_meta self (None :: 'b Tensor option)
       = Inr ([], (options self)\<lparr>dtype := (if scalar_type self = kByte then kByte else kBool)\<rparr>)"
    unfolding any_meta_def none by (rule resize_reduction_all)
  have c6: "all_meta self (Some out) = Inr ([], (options self)\<lparr>dtype := scalar_type out\<rparr>)
        \<and> any_meta self (Some out) = Inr ([], (options self)\<lparr>dtype := scalar_type out\<rparr>)"
    if "scalar_type out = kBool \<or> scalar_type out = kByte"
    unfolding all_meta_def any_meta_def some_ok [OF that] by (simp add: resize_reduction_all)
  from c1 c2 c3 some_bad accepted c6 show ?thesis by blast
qed

theorem allany_result_dtype_witness:
  "all_meta (vector kByte [1, 2 :: int]) (None :: int Tensor option)
     = Inr ([], \<lparr>dtype = kByte, device_opt = kCPU, layout_opt = Strided\<rparr>)
   \<and> any_meta (vector kFloat [1, 2 :: int]) (None :: int Tensor option)
     = Inr ([], \<lparr>dtype = kBool, device_opt = kCPU, layout_opt = Strided\<rparr>)
   \<and> allany_meta ''all'' (vector kFloat [1, 2 :: int]) [0] False (Some (cpu_tensor [] kLong (\<lambda>_. 0 :: int)))
     = Inl (Error ''all only supports bool tensor for result'')
   \<and> all_meta (vector kFloat [1, 2 :: int]) (Some (cpu_tensor [] kByte (\<lambda>_. 0 :: int)))
     = Inr ([], \<lparr>dtype = kByte, device_opt = kCPU, layout_opt = Strided\<rparr>)"
  using allany_result_dtype [of "''all''" "vector kByte [1, 2 :: int]" "[0]" False
      "cpu_tensor [] kLong (\<lambda>_. 0 :: int)"]
    allany_result_dtype [of "''all''" "vector kFloat [1, 2 :: int]" "[0]" False
      "cpu_tensor [] kLong (\<lambda>_. 0 :: int)"]
    allany_result_dtype [of "''all''" "vector kFloat [1, 2 :: int]" "[0]" False
      "cpu_tensor [] kByte (\<lambda>_. 0 :: int)"]
  by (simp add: vector_def cpu_tensor_def options_def)

section \<open>Properties of var and std\<close>

subsection \<open>Arithmetic on double\<close>

lemma sign_preserving_exact: "sign_preserving exact"
  by (auto simp: sign_preserving_def exact_def)

lemma sign_preserving_sq:
  assumes "sign_preserving rnd" and "0 \<le> r"
  shows "sq_value (rnd t r)"
proof (cases "r = 0")
  case True
  with assms(1) show ?thesis by (simp add: sign_preserving_def sq_value_def)
next
  case False
  with assms(2) have "0 < r" by simp
  with assms(1) have "rnd t r = PInf \<or> (\<exists>a\<ge>0. rnd t r = Fin a)"
    unfolding sign_preserving_def by blast
  then show ?thesis unfolding sq_value_def by blast
qed

lemma sign_preserving_zero: "sign_preserving rnd \<Longrightarrow> rnd t 0 = Fin 0"
  by (simp add: sign_preserving_def)

lemma sq_value_zero: "sq_value (Fin 0)"
  by (simp add: sq_value_def)

lemma dmul_self_sq:
  assumes "sign_preserving rnd"
  shows "sq_value (dmul (rnd t) a a)"
proof (cases a)
  case (Fin r)
  then show ?thesis using sign_preserving_sq [OF assms, of "r * r" t] by simp
qed (simp_all add: sq_value_def)

lemma dadd_sq:
  assumes "sign_preserving rnd" and "sq_value a" and "sq_value b"
  shows "sq_value (dadd (rnd t) a b)"
proof (cases a)
  case a: (Fin r)
  with assms(2) have r: "0 \<le> r" by (simp add: sq_value_def)
  show ?thesis
  proof (cases b)
    case (Fin u)
    with assms(3) have "0 \<le> u" by (simp add: sq_value_def)
    with r have "0 \<le> r + u" by simp
    from sign_preserving_sq [OF assms(1) this, of t] a Fin show ?thesis by simp
  next
    case NInf
    with assms(3) show ?thesis by (simp add: sq_value_def)
  qed (simp_all add: a sq_value_def)
next
  case NInf
  with assms(2) show ?thesis by (simp add: sq_value_def)
next
  case NaN
  then show ?thesis by (simp add: sq_value_def)
next
  case PInf
  with assms(3) show ?thesis by (cases b) (simp_all add: sq_value_def)
qed

lemma fold_sq:
  assumes "\<And>x acc. sq_value acc \<Longrightarrow> sq_value (f x acc)" and "sq_value a"
  shows "sq_value (fold f xs a)"
  using assms(2) by (induction xs arbitrary: a) (simp_all add: assms(1))

lemma local_sum_sq:
  assumes "sign_preserving rnd"
  shows "sq_value (local_sum (rnd t) m block)"
  unfolding local_sum_def Let_def
  by (rule fold_sq) (simp_all add: dadd_sq [OF assms] dmul_self_sq [OF assms] sq_value_zero)

lemma thread_sum_sq:
  assumes "sign_preserving rnd"
  shows "sq_value (thread_sum (rnd t) m chunk)"
  unfolding thread_sum_def
  by (rule fold_sq) (simp_all add: dadd_sq [OF assms] local_sum_sq [OF assms] sq_value_zero)

lemma sum_dx2_sq:
  assumes "sign_preserving (rounding_of env)"
  shows "sq_value (sum_dx2 env self)"
  unfolding sum_dx2_def Let_def
  by (rule fold_sq) (simp_all add: dadd_sq [OF assms] thread_sum_sq [OF assms] sq_value_zero)

lemma ddiv_sq_zero:
  assumes "sq_value v"
  shows "(ddiv rd v (Fin 0) = NaN \<or> ddiv rd v (Fin 0) = PInf)
       \<and> (ddiv rd v (Fin 0) = NaN \<longleftrightarrow> v = NaN \<or> v = Fin 0)"
  using assms by (cases v) (auto simp: sq_value_def)

lemma dsqrt_special: "v = NaN \<or> v = PInf \<Longrightarrow> dsqrt rd v = v"
  by auto

lemma static_cast_float_special: "v = NaN \<or> v = PInf \<Longrightarrow> static_cast_float rnd v = v"
  by auto

lemma convert_scalar_special:
  "isFloatingType t \<Longrightarrow> v = NaN \<or> v = PInf \<Longrightarrow> convert_scalar rnd t v = v"
  by (auto simp: convert_scalar_def)

lemma int64_id: "in_int64 v \<Longrightarrow> int64 v = v"
  by (simp add: int64_def in_int64_def wrap_signed_def)

lemma std_var_all_cpu_value:
  assumes dt: "scalar_type self = kDouble \<or> scalar_type self = kFloat"
    and c: "in_int64 (int (numel self) - correction)"
  shows "std_var_all_cpu env self correction take_sqrt =
     Inr (let rd = rounding_of env kDouble;
              q = ddiv rd (sum_dx2 env self)
                    (rd (real_of_int (max 0 (int (numel self) - correction))));
              r = (if take_sqrt then dsqrt rd q else q)
          in if scalar_type self = kFloat then static_cast_float (rounding_of env) r else r)"
  using dt by (auto simp: std_var_all_cpu_def divisor_def int64_id [OF c] Let_def)

subsection \<open>The path of std_var_out to the whole-tensor reduction\<close>

lemma std_var_out_all_cpu:
  assumes dev: "device self = kCPU" and lay: "layout self = Strided"
    and dt: "scalar_type self = kDouble \<or> scalar_type self = kFloat"
    and rdt: "scalar_type result = scalar_type self"
    and n: "numel self \<noteq> 0"
    and shape: "get_reduction_shape self (case dim_opt of Some ds \<Rightarrow> ds | None \<Rightarrow> []) keepdim
                  = Inr shape"
    and one: "prod_list shape = 1"
    and v: "std_var_all_cpu env self (case correction_opt of Some c \<Rightarrow> c | None \<Rightarrow> 1) take_sqrt
              = Inr v"
  shows "std_var_out env std_var_stub fname result self dim_opt correction_opt keepdim take_sqrt
           = Inr (result\<lparr>sizes := shape,
                         elem := (\<lambda>_. convert_scalar (rounding_of env) (scalar_type self) v)\<rparr>)"
proof -
  have fl: "isFloatingType (scalar_type self)" "\<not> isComplexType (scalar_type self)"
    using dt by (auto simp: isFloatingType_def isComplexType_def)
  have mk: "make_reduction fname result self dim_opt keepdim (scalar_type self)
      = Inr (result\<lparr>sizes := shape\<rparr>,
             \<lparr>iter_shape = sizes self, iter_numel = numel self,
              iter_common_dtype = scalar_type self, iter_device_type = device self\<rparr>)"
    using shape dev rdt
    by (auto simp: make_reduction_def make_reduction_in_out_def get_reduction_shape_def
        and_then_def Let_def split: sum.splits)
  have num: "numel (result\<lparr>sizes := shape\<rparr>) = 1"
    using one by (simp add: numel_def)
  have common: "scalar_type self \<noteq> kBFloat16" "scalar_type self \<noteq> kHalf"
    using dt by auto
  show ?thesis
    apply (subst std_var_out.simps)
    using n num common v dev lay fl rdt
    apply (simp add: get_dtype_from_result_def mk Let_def fill_scalar_def split del: if_split)
    done
qed

subsection \<open>The divisor of var and std\<close>

text \<open>
  C3 (as the code has it). For \<open>var\<close> and \<open>std\<close> of a non-empty float or double tensor on
  the CPU, reduced to one element over its \<open>N\<close> elements, with any rounding that keeps zero
  and the sign of positive numbers: the result is the sum of squared deviations divided by
  \<open>max(0, N - correction)\<close> (its square root for \<open>std\<close>), converted to the dtype of the
  tensor. When \<open>correction >= N\<close> the divisor is zero and nothing is raised: the result is
  NaN when the sum of squared deviations is zero or NaN, and the positive infinity otherwise.
\<close>

theorem var_std_divisor:
  assumes "sign_preserving (rounding_of env)"
    and "device self = kCPU" and "layout self = Strided"
    and "scalar_type self = kDouble \<or> scalar_type self = kFloat"
    and "numel self \<noteq> 0"
    and "in_int64 correction" and "in_int64 (int (numel self) - correction)"
    and "get_reduction_shape self (case dim_opt of Some ds \<Rightarrow> ds | None \<Rightarrow> []) keepdim = Inr shape"
    and "prod_list shape = 1"
  shows "let rd = rounding_of env kDouble;
             q = ddiv rd (sum_dx2 env self)
                   (rd (real_of_int (max 0 (int (numel self) - correction))));
             out = (\<lambda>v. convert_scalar (rounding_of env) (scalar_type self)
                      (if scalar_type self = kFloat then static_cast_float (rounding_of env) v
                       else v))
         in var env std_var_stub self dim_opt (Some correction) keepdim
              = Inr (one_element_result self shape (out q))
          \<and> std env std_var_stub self dim_opt (Some correction) keepdim
              = Inr (one_element_result self shape (out (dsqrt rd q)))
          \<and> (int (numel self) \<le> correction \<longrightarrow>
               (q = NaN \<or> q = PInf)
             \<and> (q = NaN \<longleftrightarrow> sum_dx2 env self = NaN \<or> sum_dx2 env self = Fin 0)
             \<and> out q = q \<and> out (dsqrt rd q) = q)"
proof -
  let ?rnd = "rounding_of env"
  let ?rd = "?rnd kDouble"
  let ?q = "ddiv ?rd (sum_dx2 env self) (?rd (real_of_int (max 0 (int (numel self) - correction))))"
  let ?out = "\<lambda>v. convert_scalar ?rnd (scalar_type self)
                (if scalar_type self = kFloat then static_cast_float ?rnd v else v)"
  let ?res = "at_empty [0] (options_to_value_type (options self)) :: double Tensor"
  have fl: "isFloatingType (scalar_type self)"
    using assms(4) by (auto simp: isFloatingType_def)
  have all_cpu: "std_var_all_cpu env self (case Some correction of Some c \<Rightarrow> c | None \<Rightarrow> 1) take_sqrt
      = Inr (if scalar_type self = kFloat
             then static_cast_float ?rnd (if take_sqrt then dsqrt ?rd ?q else ?q)
             else (if take_sqrt then dsqrt ?rd ?q else ?q))" for take_sqrt
    using std_var_all_cpu_value [OF assms(4) assms(7), of env take_sqrt]
    by (simp add: Let_def)
  have rdt: "scalar_type ?res = scalar_type self"
    using assms(4) by (auto simp: at_empty_def options_to_value_type_def options_def)
  have res: "?res\<lparr>sizes := shape, elem := (\<lambda>_. v)\<rparr> = one_element_result self shape v" for v
    by (simp add: at_empty_def options_to_value_type_def options_def one_element_result_def)
  have out: "std_var_out env std_var_stub fname ?res self dim_opt (Some correction) keepdim take_sqrt
      = Inr (one_element_result self shape (?out (if take_sqrt then dsqrt ?rd ?q else ?q)))"
    for fname take_sqrt
    using std_var_out_all_cpu [OF assms(2) assms(3) assms(4) rdt assms(5) assms(8) assms(9) all_cpu,
        of std_var_stub fname take_sqrt]
    by (simp only: res if_distrib [of "static_cast_float ?rnd"] if_cancel cong: if_cong)
  have v: "var env std_var_stub self dim_opt (Some correction) keepdim
      = Inr (one_element_result self shape (?out ?q))"
    unfolding var_def Let_def by (simp only: out if_False)
  have s: "std env std_var_stub self dim_opt (Some correction) keepdim
      = Inr (one_element_result self shape (?out (dsqrt ?rd ?q)))"
    unfolding std_def Let_def by (simp only: out if_True)
  have z: "(?q = NaN \<or> ?q = PInf)
      \<and> (?q = NaN \<longleftrightarrow> sum_dx2 env self = NaN \<or> sum_dx2 env self = Fin 0)
      \<and> ?out ?q = ?q \<and> ?out (dsqrt ?rd ?q) = ?q"
    if c: "int (numel self) \<le> correction"
  proof -
    from c have m: "max 0 (int (numel self) - correction) = 0" by simp
    have q: "?q = ddiv ?rd (sum_dx2 env self) (Fin 0)"
      by (simp only: m of_int_0 sign_preserving_zero [OF assms(1)])
    have sp: "?q = NaN \<or> ?q = PInf"
      and iff: "?q = NaN \<longleftrightarrow> sum_dx2 env self = NaN \<or> sum_dx2 env self = Fin 0"
      unfolding q using ddiv_sq_zero [OF sum_dx2_sq [OF assms(1)], of ?rd self] by blast+
    have sq: "dsqrt ?rd ?q = ?q" by (rule dsqrt_special [OF sp])
    have o: "?out ?q = ?q"
      using static_cast_float_special [OF sp, of ?rnd] convert_scalar_special [OF fl sp, of ?rnd]
      by (simp only: if_cancel)
    from sp iff o show ?thesis by (simp only: sq simp_thms)
  qed
  show ?thesis
    unfolding Let_def
    by (intro conjI impI) (fact v, fact s, (drule z, blast)+)
qed

theorem var_std_divisor_witness:
  "var exact_env (\<lambda>_ _ _ _ r. r) (vector kDouble [(Fin 1, Fin 0), (Fin 3, Fin 0)]) (Some [0])
       (Some 0) True
     = Inr (cpu_tensor [1] kDouble (\<lambda>_. Fin 1))
   \<and> std exact_env (\<lambda>_ _ _ _ r. r) (vector kDouble [(Fin 1, Fin 0), (Fin 3, Fin 0)]) (Some [0])
       (Some 0) True
     = Inr (cpu_tensor [1] kDouble (\<lambda>_. Fin 1))
   \<and> var exact_env (\<lambda>_ _ _ _ r. r) (vector kDouble [(Fin 1, Fin 0), (Fin 3, Fin 0)]) None
       (Some 1) False
     = Inr (cpu_tensor [] kDouble (\<lambda>_. Fin 2))
   \<and> var exact_env (\<lambda>_ _ _ _ r. r) (vector kDouble [(Fin 1, Fin 0), (Fin 1, Fin 0)]) None
       (Some 2) False
     = Inr (cpu_tensor [] kDouble (\<lambda>_. NaN))
   \<and> std exact_env (\<lambda>_ _ _ _ r. r) (vector kDouble [(Fin 1, Fin 0), (Fin 1, Fin 0)]) None
       (Some 2) False
     = Inr (cpu_tensor [] kDouble (\<lambda>_. NaN))"
  using var_std_divisor [of exact_env "vector kDouble [(Fin 1, Fin 0), (Fin 3, Fin 0)]" 0
      "Some [0]" True "[1]" "\<lambda>_ _ _ _ r. r"]
    var_std_divisor [of exact_env "vector kDouble [(Fin 1, Fin 0), (Fin 3, Fin 0)]" 1
      None False "[]" "\<lambda>_ _ _ _ r. r"]
    var_std_divisor [of exact_env "vector kDouble [(Fin 1, Fin 0), (Fin 1, Fin 0)]" 2
      None False "[]" "\<lambda>_ _ _ _ r. r"]
  by (simp add: sign_preserving_exact exact_env_def exact_def exact_sum_def in_int64_def
      get_reduction_shape_def make_dim_mask_def dim_list_to_bitset_def maybe_wrap_dim_def
      shape_from_dim_mask_def convert_scalar_def isFloatingType_def
      vector_def cpu_tensor_def numel_def ndimension_def one_element_result_def
      sum_dx2_def mean_item_def local_sum_def thread_sum_def elements_def all_indices_def
      dsub_def Let_def)

text \<open>
  C3 as the specification words it fails: \<open>var\<close> and \<open>std\<close> of the vector \<open>[1, 2]\<close> with
  \<open>correction = 2\<close> are the positive infinity, not NaN. Every intermediate value of this
  run (the mean 1.5, the deviations and their squares 0.25, the sum 0.5) is a double, so that
  the exact rounding is the rounding of the machine here.
\<close>

theorem var_correction_ge_numel_is_inf:
  "var exact_env (\<lambda>_ _ _ _ r. r) (vector kDouble [(Fin 1, Fin 0), (Fin 2, Fin 0)]) None (Some 2) False
     = Inr (cpu_tensor [] kDouble (\<lambda>_. PInf))
   \<and> std exact_env (\<lambda>_ _ _ _ r. r) (vector kDouble [(Fin 1, Fin 0), (Fin 2, Fin 0)]) None (Some 2) False
     = Inr (cpu_tensor [] kDouble (\<lambda>_. PInf))
   \<and> PInf \<noteq> NaN"
  by (simp add: var_def std_def vector_def cpu_tensor_def numel_def ndimension_def
      options_to_value_type_def options_def at_empty_def isFloatingType_def isComplexType_def
      get_dtype_from_result_def make_reduction_def make_reduction_in_out_def make_dim_mask_def
      and_then_def shape_from_dim_mask_def fill_scalar_def convert_scalar_def std_var_all_cpu_def
      divisor_def int64_def wrap_signed_def exact_env_def exact_def exact_sum_def
      sum_dx2_def mean_item_def local_sum_def thread_sum_def elements_def all_indices_def
      dsub_def Let_def)

section \<open>Properties of cumprod_backward\<close>

text \<open>
  C10. \<open>cumprod_backward\<close> returns the incoming gradient as it is when the input has at most
  one element, whatever the dimension argument, and when the dimension the argument denotes
  has size 1; in both cases whatever the input holds, zeros included, and whether or not
  \<open>GradMode\<close> is enabled.
\<close>

theorem cumprod_backward_returns_grad:
  "(numel input \<le> 1 \<longrightarrow>
      cumprod_backward grad input dim_arg output grad_mode_enabled = Inr grad)
   \<and> (0 < ndimension input \<and> maybe_wrap_dim dim_arg (ndimension input) = Inr d
        \<and> sizes input ! d = 1 \<longrightarrow>
      cumprod_backward grad input dim_arg output grad_mode_enabled = Inr grad)"
  by (simp add: cumprod_backward_def and_then_def Let_def)

theorem cumprod_backward_returns_grad_witness:
  "cumprod_backward (vector kComplexDouble [5]) (vector kComplexDouble [0]) 7
       (vector kComplexDouble [0]) True
     = Inr (vector kComplexDouble [5])
   \<and> cumprod_backward (cpu_tensor [2, 1] kComplexDouble (\<lambda>idx. of_nat (hd idx) + 3))
       (cpu_tensor [2, 1] kComplexDouble (\<lambda>idx. of_nat (hd idx))) (- 1)
       (cpu_tensor [2, 1] kComplexDouble (\<lambda>idx. of_nat (hd idx))) True
     = Inr (cpu_tensor [2, 1] kComplexDouble (\<lambda>idx. of_nat (hd idx) + 3))
   \<and> cumprod_backward (cpu_tensor [2, 1] kComplexDouble (\<lambda>idx. of_nat (hd idx) + 3))
       (cpu_tensor [2, 1] kComplexDouble (\<lambda>idx. of_nat (hd idx))) 1
       (cpu_tensor [2, 1] kComplexDouble (\<lambda>idx. of_nat (hd idx))) False
     = Inr (cpu_tensor [2, 1] kComplexDouble (\<lambda>idx. of_nat (hd idx) + 3))"
  using cumprod_backward_returns_grad [of "vector kComplexDouble [0]" "vector kComplexDouble [5]" 7
      "vector kComplexDouble [0]" True 0]
    cumprod_backward_returns_grad [of "cpu_tensor [2, 1] kComplexDouble (\<lambda>idx. of_nat (hd idx))"
      "cpu_tensor [2, 1] kComplexDouble (\<lambda>idx. of_nat (hd idx) + 3)" "- 1"
      "cpu_tensor [2, 1] kComplexDouble (\<lambda>idx. of_nat (hd idx))" True 1]
    cumprod_backward_returns_grad [of "cpu_tensor [2, 1] kComplexDouble (\<lambda>idx. of_nat (hd idx))"
      "cpu_tensor [2, 1] kComplexDouble (\<lambda>idx. of_nat (hd idx) + 3)" 1
      "cpu_tensor [2, 1] kComplexDouble (\<lambda>idx. of_nat (hd idx))" False 1]
  by (simp add: vector_def cpu_tensor_def numel_def ndimension_def maybe_wrap_dim_def)

end
